theory Spec2Isabelle
  imports Complex_Main
begin

section \<open>NeoBin: the device control core of main.py\<close>

text \<open>
  The theory embeds the three GATT characteristics of main.py (AuthChrc, WriteChrc,
  InformChrc) and the sensor loop of NeoService as functions over an explicit service
  state. A method that raises returns \<open>Inl\<close> of the exception together with the
  state it had reached when it raised, because several handlers assign fields before they
  raise.

  What lies outside the two source files enters as data:
  \<^item> the JSON library: \<open>json.loads\<close> is the field \<open>json_loads\<close> of the environment
    (\<open>None\<close> stands for JSONDecodeError); JSON numbers are integers, a number with a
    fraction or an exponent is outside the model;
  \<^item> the text of a command is an Isabelle string, so its code points are below 256; the
    commands of the protocol are ASCII. An undecodable payload is the value \<open>BadUtf8\<close>;
  \<^item> \<open>get_wifi_status\<close> (nmcli, iw, ip) is the field \<open>get_wifi_status\<close> of the
    environment, a function of the nmcli commands run so far;
  \<^item> \<open>subprocess.run\<close> refuses an argument with a NUL character (ValueError); whether
    the operating system can start the program at all is the field \<open>os_error\<close> of the
    environment (\<open>None\<close>: the program ran, whatever its exit status);
  \<^item> a read receives the \<open>options\<close> argument as D-Bus delivers it, a Python value;
  \<^item> the files settings.json and default.json are values of type \<open>jfile\<close>;
  \<^item> the servo is the list of the pulse widths passed to \<open>set_servo_pulsewidth\<close>, the
    D-Bus signal the list of the payloads passed to \<open>PropertiesChanged\<close>;
  \<^item> the ultrasonic echo is the measured pulse duration, a real number, or \<open>None\<close>
    when an edge wait ran into its 0.1 s bound or the driver raised.
\<close>

subsection \<open>JSON values and Python exceptions\<close>

datatype json =
    JNull
  | JBool bool
  | JInt int
  | JStr string
  | JArr "json list"
  | JObj "(string \<times> json) list"

text \<open>
  \<open>FailedException m None\<close> is \<open>FailedException(m)\<close>; \<open>FailedException m (Some e)\<close>
  is the exception whose message is \<open>m\<close> followed by \<open>str(e)\<close>, as in
  \<open>FailedException(str(e))\<close> and \<open>FailedException(f"Couldn't save file: {e}")\<close>.
\<close>

datatype exn =
    FailedException string "exn option"
  | InvalidValueLengthException
  | ValueError
  | TypeError
  | KeyError
  | IndexError
  | JSONDecodeError
  | FileNotFoundError
  | UnicodeDecodeError
  | OSError

text \<open>\<open>except ValueError\<close> also catches the subclasses of ValueError.\<close>

definition is_ValueError :: "exn \<Rightarrow> bool" where
  "is_ValueError e = (e = ValueError \<or> e = JSONDecodeError \<or> e = UnicodeDecodeError)"

subsection \<open>Python's string operations\<close>

definition startswith :: "string \<Rightarrow> string \<Rightarrow> bool" where
  "startswith s p = (take (length p) s = p)"

text \<open>\<open>s.split(sep)\<close> for a one-character separator: never an empty list.\<close>

fun split :: "string \<Rightarrow> char \<Rightarrow> string list" where
  "split [] sep = [[]]"
| "split (c # cs) sep =
     (if c = sep then [] # split cs sep
      else (case split cs sep of [] \<Rightarrow> [[c]] | w # ws \<Rightarrow> (c # w) # ws))"

text \<open>
  \<open>int(text)\<close>: surrounding whitespace is dropped, one sign may lead, and the digits
  may be grouped by single underscores. Anything else is a ValueError (\<open>None\<close>). The
  whitespace \<open>int\<close> skips is tab, line feed, vertical tab, form feed, carriage
  return and space, and of the code points from 128 to 255 the two that are Unicode
  whitespace (133 and 160). The length bound of \<open>int\<close> (4300 digits) is beyond a
  characteristic's value and is not modelled.
\<close>

definition is_space :: "char \<Rightarrow> bool" where
  "is_space c = ((of_char c :: nat) \<in> {9, 10, 11, 12, 13, 32, 133, 160})"

definition is_digit :: "char \<Rightarrow> bool" where
  "is_digit c = (48 \<le> (of_char c :: nat) \<and> (of_char c :: nat) \<le> 57)"

definition digit_val :: "char \<Rightarrow> nat" where
  "digit_val c = of_char c - 48"

definition strip :: "string \<Rightarrow> string" where
  "strip s = rev (dropWhile is_space (rev (dropWhile is_space s)))"

fun digits_from :: "nat \<Rightarrow> string \<Rightarrow> nat option" where
  "digits_from acc [] = Some acc"
| "digits_from acc [c] = (if is_digit c then Some (10 * acc + digit_val c) else None)"
| "digits_from acc (c # d # cs) =
     (if is_digit c then digits_from (10 * acc + digit_val c) (d # cs)
      else if c = CHR ''_'' \<and> is_digit d then digits_from (10 * acc + digit_val d) cs
      else None)"

definition digits :: "string \<Rightarrow> nat option" where
  "digits s = (case s of [] \<Rightarrow> None
               | c # cs \<Rightarrow> if is_digit c then digits_from (digit_val c) cs else None)"

definition int_of_str :: "string \<Rightarrow> int option" where
  "int_of_str s =
     (let t = strip s in
      case t of
        [] \<Rightarrow> None
      | c # cs \<Rightarrow>
          if c = CHR ''-'' then map_option (\<lambda>n. - int n) (digits cs)
          else if c = CHR ''+'' then map_option int (digits cs)
          else map_option int (digits t))"

text \<open>\<open>str(n)\<close> for an integer, used where the JSON encoder writes a number as a key.\<close>

fun str_nat :: "nat \<Rightarrow> string" where
  "str_nat n =
     (if n < 10 then [''0123456789'' ! n]
      else str_nat (n div 10) @ [''0123456789'' ! (n mod 10)])"

definition str_int :: "int \<Rightarrow> string" where
  "str_int i = (if i < 0 then CHR ''-'' # str_nat (nat (- i)) else str_nat (nat i))"

subsection \<open>Subscripting JSON values\<close>

text \<open>\<open>obj[k]\<close> for a string literal \<open>k\<close>.\<close>

definition getitem_str :: "json \<Rightarrow> string \<Rightarrow> exn + json" where
  "getitem_str obj k =
     (case obj of
        JObj kvs \<Rightarrow> (case map_of kvs k of None \<Rightarrow> Inl KeyError | Some v \<Rightarrow> Inr v)
      | _ \<Rightarrow> Inl TypeError)"

text \<open>
  The position a Python index \<open>i\<close> denotes in a sequence: \<open>-1\<close> is the last
  element; \<open>None\<close> is an IndexError.
\<close>

definition list_index :: "'a list \<Rightarrow> int \<Rightarrow> nat option" where
  "list_index xs i =
     (if 0 \<le> i \<and> i < int (length xs) then Some (nat i)
      else if i < 0 \<and> - i \<le> int (length xs) then Some (nat (int (length xs) + i))
      else None)"

text \<open>
  \<open>obj[k]\<close> for a key that is itself a JSON value. A dict loaded from JSON has string
  keys only, so another hashable key is a KeyError and a list or a dict as key is
  unhashable; a list or a string takes an integer (or a bool) as index.
\<close>

definition index_of :: "json \<Rightarrow> int option" where
  "index_of k = (case k of JInt i \<Rightarrow> Some i | JBool b \<Rightarrow> Some (if b then 1 else 0) | _ \<Rightarrow> None)"

definition getitem :: "json \<Rightarrow> json \<Rightarrow> exn + json" where
  "getitem obj k =
     (case obj of
        JObj kvs \<Rightarrow>
          (case k of
             JStr s \<Rightarrow> (case map_of kvs s of None \<Rightarrow> Inl KeyError | Some v \<Rightarrow> Inr v)
           | JArr _ \<Rightarrow> Inl TypeError
           | JObj _ \<Rightarrow> Inl TypeError
           | _ \<Rightarrow> Inl KeyError)
      | JArr xs \<Rightarrow>
          (case index_of k of
             None \<Rightarrow> Inl TypeError
           | Some i \<Rightarrow> (case list_index xs i of None \<Rightarrow> Inl IndexError | Some n \<Rightarrow> Inr (xs ! n)))
      | JStr s \<Rightarrow>
          (case index_of k of
             None \<Rightarrow> Inl TypeError
           | Some i \<Rightarrow> (case list_index s i of None \<Rightarrow> Inl IndexError | Some n \<Rightarrow> Inr (JStr [s ! n])))
      | _ \<Rightarrow> Inl TypeError)"

text \<open>
  The key a dict entry has once the JSON encoder has written it: a string stays, a
  number, a bool or null is written as its text. The model keeps an entry under this
  key, which is how settings.json and a notification carry it; the handlers look up the
  keys \<open>settings\<close>, \<open>minAngle\<close>, \<open>maxAngle\<close> and \<open>detectDistance\<close> only.
\<close>

definition key_text :: "json \<Rightarrow> string option" where
  "key_text k =
     (case k of
        JStr s \<Rightarrow> Some s
      | JInt i \<Rightarrow> Some (str_int i)
      | JBool b \<Rightarrow> Some (if b then ''true'' else ''false'')
      | JNull \<Rightarrow> Some ''null''
      | _ \<Rightarrow> None)"

fun dict_update :: "(string \<times> json) list \<Rightarrow> string \<Rightarrow> json \<Rightarrow> (string \<times> json) list" where
  "dict_update [] k v = [(k, v)]"
| "dict_update ((k', v') # kvs) k v =
     (if k' = k then (k, v) # kvs else (k', v') # dict_update kvs k v)"

text \<open>\<open>obj[k] = v\<close>.\<close>

definition setitem :: "json \<Rightarrow> json \<Rightarrow> json \<Rightarrow> exn + json" where
  "setitem obj k v =
     (case obj of
        JObj kvs \<Rightarrow>
          (case key_text k of None \<Rightarrow> Inl TypeError | Some s \<Rightarrow> Inr (JObj (dict_update kvs s v)))
      | JArr xs \<Rightarrow>
          (case index_of k of
             None \<Rightarrow> Inl TypeError
           | Some i \<Rightarrow> (case list_index xs i of None \<Rightarrow> Inl IndexError | Some n \<Rightarrow> Inr (JArr (xs[n := v]))))
      | _ \<Rightarrow> Inl TypeError)"

text \<open>
  \<open>obj[t][k] = v\<close>: the member \<open>obj[t]\<close> is updated in place, so \<open>obj\<close> holds the
  updated member afterwards.
\<close>

definition setitem2 :: "json \<Rightarrow> json \<Rightarrow> json \<Rightarrow> json \<Rightarrow> exn + json" where
  "setitem2 obj t k v =
     (case getitem obj t of
        Inl e \<Rightarrow> Inl e
      | Inr member \<Rightarrow>
          (case setitem member k v of
             Inl e \<Rightarrow> Inl e
           | Inr member' \<Rightarrow>
               (case obj of
                  JObj kvs \<Rightarrow> (case t of JStr s \<Rightarrow> Inr (JObj (dict_update kvs s member')) | _ \<Rightarrow> Inl KeyError)
                | JArr xs \<Rightarrow>
                    (case index_of t of
                       None \<Rightarrow> Inl TypeError
                     | Some i \<Rightarrow> (case list_index xs i of None \<Rightarrow> Inl IndexError | Some n \<Rightarrow> Inr (JArr (xs[n := member']))))
                | _ \<Rightarrow> Inl TypeError)))"

text \<open>\<open>int(v)\<close> for a JSON value.\<close>

definition py_int :: "json \<Rightarrow> exn + int" where
  "py_int v =
     (case v of
        JInt i \<Rightarrow> Inr i
      | JBool b \<Rightarrow> Inr (if b then 1 else 0)
      | JStr s \<Rightarrow> (case int_of_str s of None \<Rightarrow> Inl ValueError | Some i \<Rightarrow> Inr i)
      | _ \<Rightarrow> Inl TypeError)"

text \<open>\<open>distance < v\<close> for a float and a JSON value.\<close>

definition less_json :: "real \<Rightarrow> json \<Rightarrow> exn + bool" where
  "less_json d v =
     (case v of
        JInt i \<Rightarrow> Inr (d < real_of_int i)
      | JBool b \<Rightarrow> Inr (d < (if b then 1 else 0))
      | _ \<Rightarrow> Inl TypeError)"

subsection \<open>The service state\<close>

datatype jfile = Missing | Corrupt | Content json

text \<open>
  The fields of NeoService and of its InformChrc (\<open>notifying\<close>), the file
  settings.json, and the histories of what the service did to the outside:
  \<open>servo\<close> the pulse widths set, \<open>sent\<close> the arguments of every call of
  \<open>send_notification\<close>, \<open>signals\<close> the payloads that went out as
  \<open>PropertiesChanged\<close>, \<open>procs\<close> the command lines run.
\<close>

record service =
  settings :: json
  is_auth :: bool
  status :: bool
  angle :: int
  opened :: bool
  running :: bool
  notifying :: bool
  settings_file :: jfile
  servo :: "int list"
  sent :: "json list"
  signals :: "json list"
  procs :: "string list list"

record env =
  json_loads :: "string \<Rightarrow> json option"
  get_wifi_status :: "string list list \<Rightarrow> json"
  os_error :: "string list \<Rightarrow> exn option"

datatype payload = Utf8 string | BadUtf8

subsection \<open>NeoService\<close>

definition default_settings :: json where
  "default_settings =
     JObj [(''settings'',
       JObj [(''minAngle'', JInt 0), (''maxAngle'', JInt 180), (''detectDistance'', JInt 20)])]"

text \<open>\<open>int(self.settings["settings"][k])\<close>.\<close>

definition int_setting :: "service \<Rightarrow> string \<Rightarrow> exn + int" where
  "int_setting s k =
     (case getitem_str (settings s) ''settings'' of
        Inl e \<Rightarrow> Inl e
      | Inr sec \<Rightarrow> (case getitem_str sec k of Inl e \<Rightarrow> Inl e | Inr v \<Rightarrow> py_int v))"

definition pulse_width :: "int \<Rightarrow> int" where
  "pulse_width a = 500 + ((180 - a) * 2000 div 180)"

text \<open>
  \<open>return_default\<close> and \<open>read_json\<close>, on the contents of default.json and
  settings.json: the settings read, and settings.json afterwards.
\<close>

definition return_default :: "jfile \<Rightarrow> exn + json" where
  "return_default dfile =
     (case dfile of
        Content j \<Rightarrow> Inr j
      | Missing \<Rightarrow> Inr default_settings
      | Corrupt \<Rightarrow> Inl JSONDecodeError)"

definition read_json :: "jfile \<Rightarrow> jfile \<Rightarrow> exn + json \<times> jfile" where
  "read_json sfile dfile =
     (case sfile of
        Content j \<Rightarrow> Inr (j, sfile)
      | Corrupt \<Rightarrow> Inl JSONDecodeError
      | Missing \<Rightarrow> (case return_default dfile of Inl e \<Rightarrow> Inl e | Inr d \<Rightarrow> Inr (d, Content d)))"

text \<open>
  \<open>NeoService.__init__\<close> with \<open>_init_hardware\<close> and \<open>set_initial_angle\<close>; the
  characteristic InformChrc starts with \<open>notifying = False\<close>.
\<close>

definition init_fields :: "json \<Rightarrow> jfile \<Rightarrow> service" where
  "init_fields st sfile =
     \<lparr>settings = st, is_auth = False, status = True, angle = 0,
      opened = ((180::int) \<ge> 0 \<and> (0::int) > 0), running = False, notifying = False,
      settings_file = sfile, servo = [], sent = [], signals = [], procs = []\<rparr>"

definition NeoService_init :: "jfile \<Rightarrow> jfile \<Rightarrow> exn + service" where
  "NeoService_init sfile dfile =
     (case read_json sfile dfile of
        Inl e \<Rightarrow> Inl e
      | Inr (st, sfile') \<Rightarrow>
          (let s = init_fields st sfile' in
           case int_setting s ''minAngle'' of
             Inl e \<Rightarrow> Inl e
           | Inr mn \<Rightarrow> Inr (s\<lparr>servo := servo s @ [pulse_width mn]\<rparr>)))"

text \<open>
  The range test of \<open>set_servo_angle\<close>, \<open>int(min) <= angle <= int(max)\<close>: a chained
  comparison reads \<open>maxAngle\<close> only when the first comparison holds.
\<close>

definition angle_in_range :: "service \<Rightarrow> int \<Rightarrow> exn + bool" where
  "angle_in_range s a =
     (case int_setting s ''minAngle'' of
        Inl e \<Rightarrow> Inl e
      | Inr mn \<Rightarrow>
          if mn \<le> a then (case int_setting s ''maxAngle'' of Inl e \<Rightarrow> Inl e | Inr mx \<Rightarrow> Inr (a \<le> mx))
          else Inr False)"

text \<open>
  \<open>set_servo_angle\<close>: the status test raises; everything after it runs inside
  \<open>try ... except Exception\<close>, which logs and returns, so an angle out of range (the
  InvalidValueLengthException raised inside that \<open>try\<close>) and unreadable settings end
  in a normal return without a pulse.
\<close>

definition set_servo_angle :: "service \<Rightarrow> int \<Rightarrow> (exn + unit) \<times> service" where
  "set_servo_angle s a =
     (if \<not> status s then (Inl (FailedException ''NeoBin is not on'' None), s)
      else (case angle_in_range s a of
              Inr True \<Rightarrow> (Inr (), s\<lparr>servo := servo s @ [pulse_width a]\<rparr>)
            | _ \<Rightarrow> (Inr (), s)))"

text \<open>
  \<open>save_json\<close>: both \<open>except\<close> clauses raise the same FailedException, whatever was
  caught.
\<close>

definition save_json :: "service \<Rightarrow> json \<Rightarrow> json \<Rightarrow> json \<Rightarrow> (exn + bool) \<times> service" where
  "save_json s t k v =
     (case settings_file s of
        Missing \<Rightarrow> (Inl (FailedException ''Couldn't save file: '' (Some FileNotFoundError)), s)
      | Corrupt \<Rightarrow> (Inl (FailedException ''Couldn't save file: '' (Some JSONDecodeError)), s)
      | Content st \<Rightarrow>
          (case setitem2 st t k v of
             Inl e \<Rightarrow> (Inl (FailedException ''Couldn't save file: '' (Some e)), s)
           | Inr st' \<Rightarrow> (Inr True, s\<lparr>settings_file := Content st', settings := st'\<rparr>)))"

text \<open>
  \<open>measure_distance\<close>: \<open>echo\<close> is the pulse duration measured, \<open>None\<close> when an edge
  wait timed out or the driver raised.
\<close>

definition measure_distance :: "service \<Rightarrow> real option \<Rightarrow> real" where
  "measure_distance s echo =
     (if \<not> status s then 0
      else (case echo of
              None \<Rightarrow> 0
            | Some pulse_duration \<Rightarrow>
                (let distance = pulse_duration * 34300 / 2
                 in if 0 < distance \<and> distance < 300 then distance else 0)))"

subsection \<open>InformChrc\<close>

definition send_notification :: "service \<Rightarrow> json \<Rightarrow> service" where
  "send_notification s data =
     (let s' = s\<lparr>sent := sent s @ [data]\<rparr>
      in if \<not> notifying s' then s' else s'\<lparr>signals := signals s' @ [data]\<rparr>)"

text \<open>
  \<open>ReadValue(options)\<close>: the method is exported with the D-Bus signature \<open>a{sv}\<close>
  (BluetoothManager.py), so over D-Bus \<open>options\<close> is a dictionary. The test
  \<open>options not in self.command_handler\<close> hashes its left operand: a dictionary or a
  list is unhashable and the test raises a TypeError; a string is looked up in the
  table; any other hashable value is not a key of the table.
\<close>

definition ReadValue :: "service \<Rightarrow> json \<Rightarrow> exn + json" where
  "ReadValue s options =
     (if \<not> is_auth s then Inl (FailedException ''Not authenticated'' None)
      else (case options of
              JObj _ \<Rightarrow> Inl TypeError
            | JArr _ \<Rightarrow> Inl TypeError
            | JStr selector \<Rightarrow>
                if selector = ''STATUS'' then Inr (JBool (status s))
                else if selector = ''OPENED'' then Inr (JBool (opened s))
                else if selector = ''ANGLE'' then Inr (JInt (angle s))
                else Inl (FailedException ''Invalid command'' None)
            | _ \<Rightarrow> Inl (FailedException ''Invalid command'' None)))"

definition StartNotify :: "service \<Rightarrow> (exn + unit) \<times> service" where
  "StartNotify s =
     (if notifying s then (Inr (), s)
      else if \<not> is_auth s then (Inl (FailedException ''Not authenticated'' None), s)
      else (Inr (), s\<lparr>notifying := True\<rparr>))"

definition StopNotify :: "service \<Rightarrow> (exn + unit) \<times> service" where
  "StopNotify s =
     (if \<not> notifying s then (Inr (), s) else (Inr (), s\<lparr>notifying := False\<rparr>))"

subsection \<open>AuthChrc\<close>

definition PASS :: string where
  "PASS = ''NeoBin''"

definition AuthChrc_WriteValue :: "service \<Rightarrow> string \<Rightarrow> (exn + unit) \<times> service" where
  "AuthChrc_WriteValue s v =
     (if v \<noteq> PASS then (Inl (FailedException ''Authentication Failed'' None), s\<lparr>is_auth := False\<rparr>)
      else (Inr (), s\<lparr>is_auth := True\<rparr>))"

subsection \<open>WriteChrc\<close>

text \<open>
  The value assigned to \<open>opened\<close>, \<open>int(max) >= angle > int(min)\<close>: \<open>minAngle\<close>
  is read only when the first comparison holds.
\<close>

definition opened_now :: "service \<Rightarrow> exn + bool" where
  "opened_now s =
     (case int_setting s ''maxAngle'' of
        Inl e \<Rightarrow> Inl e
      | Inr mx \<Rightarrow>
          if mx \<ge> angle s then (case int_setting s ''minAngle'' of Inl e \<Rightarrow> Inl e | Inr mn \<Rightarrow> Inr (angle s > mn))
          else Inr False)"

text \<open>
  The common tail of \<open>set_open\<close>, \<open>set_close\<close> and the ANGLE branch, once
  \<open>self.service.angle\<close> is assigned: the servo, \<open>opened\<close>, the two notifications.
\<close>

definition move_and_notify :: "service \<Rightarrow> (exn + unit) \<times> service" where
  "move_and_notify s =
     (case set_servo_angle s (angle s) of
        (Inl e, s1) \<Rightarrow> (Inl e, s1)
      | (Inr u, s1) \<Rightarrow>
          (case opened_now s1 of
             Inl e \<Rightarrow> (Inl e, s1)
           | Inr b \<Rightarrow>
               (let s2 = s1\<lparr>opened := b\<rparr>;
                    s3 = send_notification s2 (JObj [(''Angle'', JInt (angle s2))]);
                    s4 = send_notification s3 (JObj [(''Opened'', JBool (opened s3))])
                in (Inr (), s4))))"

definition set_open :: "service \<Rightarrow> (exn + unit) \<times> service" where
  "set_open s =
     (case int_setting s ''maxAngle'' of
        Inl e \<Rightarrow> (Inl e, s)
      | Inr mx \<Rightarrow> move_and_notify (s\<lparr>angle := mx\<rparr>))"

definition set_close :: "service \<Rightarrow> (exn + unit) \<times> service" where
  "set_close s =
     (case int_setting s ''minAngle'' of
        Inl e \<Rightarrow> (Inl e, s)
      | Inr mn \<Rightarrow> move_and_notify (s\<lparr>angle := mn\<rparr>))"

definition set_status :: "service \<Rightarrow> (exn + unit) \<times> service" where
  "set_status s =
     (let s1 = s\<lparr>status := \<not> status s\<rparr>
      in (Inr (), send_notification s1 (JObj [(''Status'', JBool (status s1))])))"

definition get_settings :: "service \<Rightarrow> (exn + unit) \<times> service" where
  "get_settings s =
     (case int_setting s ''maxAngle'' of
        Inl e \<Rightarrow> (Inl (FailedException [] (Some e)), s)
      | Inr mx \<Rightarrow>
          (let s1 = send_notification s (JObj [(''maxAngle'', JInt mx)])
           in case int_setting s1 ''detectDistance'' of
                Inl e \<Rightarrow> (Inl (FailedException [] (Some e)), s1)
              | Inr dd \<Rightarrow> (Inr (), send_notification s1 (JObj [(''detectDistance'', JInt dd)]))))"

definition get_wifi :: "env \<Rightarrow> service \<Rightarrow> (exn + unit) \<times> service" where
  "get_wifi ev s =
     (Inr (), send_notification s (JObj [(''WiFiConnectionData'', get_wifi_status ev (procs s))]))"

text \<open>
  \<open>update_settings\<close>: \<open>except (json.JSONDecodeError, KeyError)\<close> turns these two into
  InvalidValueLengthException; the FailedException of \<open>save_json\<close> and a TypeError
  pass through.
\<close>

definition settings_handler :: "exn \<Rightarrow> exn" where
  "settings_handler e = (if e = JSONDecodeError \<or> e = KeyError then InvalidValueLengthException else e)"

definition update_settings :: "env \<Rightarrow> service \<Rightarrow> string \<Rightarrow> (exn + unit) \<times> service" where
  "update_settings ev s data =
     (case json_loads ev data of
        None \<Rightarrow> (Inl (settings_handler JSONDecodeError), s)
      | Some d \<Rightarrow>
          (case getitem_str d ''type'' of
             Inl e \<Rightarrow> (Inl (settings_handler e), s)
           | Inr t \<Rightarrow>
               (case getitem_str d ''key'' of
                  Inl e \<Rightarrow> (Inl (settings_handler e), s)
                | Inr k \<Rightarrow>
                    (case getitem_str d ''value'' of
                       Inl e \<Rightarrow> (Inl (settings_handler e), s)
                     | Inr v \<Rightarrow>
                         (case save_json s t k v of
                            (Inl e, s1) \<Rightarrow> (Inl (settings_handler e), s1)
                          | (Inr result, s1) \<Rightarrow>
                              if result then
                                (case key_text k of
                                   None \<Rightarrow> (Inl TypeError, s1)
                                 | Some kt \<Rightarrow> (Inr (), send_notification s1 (JObj [(kt, v)])))
                              else (Inr (), s1))))))"

text \<open>
  \<open>subprocess.run(argv)\<close>, as far as the handlers can tell: an argument that holds a
  NUL character is a ValueError before anything is started, the operating system may
  fail to start the program, and otherwise the program ran and its command line is
  recorded. The exit status (a CalledProcessError under \<open>check=True\<close>) makes no
  difference to the two callers, see below.
\<close>

definition subprocess_run :: "env \<Rightarrow> service \<Rightarrow> string list \<Rightarrow> (exn + unit) \<times> service" where
  "subprocess_run ev s argv =
     (if list_ex (\<lambda>a. CHR 0x00 \<in> set a) argv then (Inl ValueError, s)
      else (case os_error ev argv of
              Some e \<Rightarrow> (Inl e, s)
            | None \<Rightarrow> (Inr (), s\<lparr>procs := procs s @ [argv]\<rparr>)))"

text \<open>
  \<open>disconnect_from_wifi\<close>: \<open>run\<close> is called without \<open>check\<close>, so it raises no
  CalledProcessError and the \<open>except\<close> clause is never entered; any other exception
  passes through.
\<close>

definition disconnect_from_wifi :: "env \<Rightarrow> service \<Rightarrow> (exn + unit) \<times> service" where
  "disconnect_from_wifi ev s =
     (case subprocess_run ev s [''sudo'', ''nmcli'', ''device'', ''disconnect'', ''wlan0''] of
        (Inl e, s1) \<Rightarrow> (Inl e, s1)
      | (Inr u, s1) \<Rightarrow>
          (Inr (), send_notification s1 (JObj [(''WiFiConnectionData'', get_wifi_status ev (procs s1))])))"

text \<open>
  \<open>connect_to_wifi\<close>: whether nmcli succeeds or its CalledProcessError is caught, the
  same notification follows; any other exception of \<open>run\<close> passes through, and so
  does the IndexError of a command without a colon.
\<close>

definition connect_to_wifi :: "env \<Rightarrow> service \<Rightarrow> string \<Rightarrow> (exn + unit) \<times> service" where
  "connect_to_wifi ev s command =
     (case split command CHR '':'' of
        ssid # password # _ \<Rightarrow>
          (case subprocess_run ev s
                  [''sudo'', ''nmcli'', ''device'', ''wifi'', ''connect'', ssid, ''password'', password] of
             (Inl e, s1) \<Rightarrow> (Inl e, s1)
           | (Inr u, s1) \<Rightarrow>
               (Inr (), send_notification s1 (JObj [(''WiFiConnectionData'', get_wifi_status ev (procs s1))])))
      | _ \<Rightarrow> (Inl IndexError, s))"

text \<open>
  The table \<open>command_handler\<close>, each entry called with no argument:
  \<open>update_settings\<close> takes one, so the entry SETTINGS raises a TypeError.
\<close>

definition command_handler :: "env \<Rightarrow> service \<Rightarrow> string \<Rightarrow> ((exn + unit) \<times> service) option" where
  "command_handler ev s command =
     (if command = ''OPEN'' then Some (set_open s)
      else if command = ''CLOSE'' then Some (set_close s)
      else if command = ''STATUS'' then Some (set_status s)
      else if command = ''SETTINGS'' then Some (Inl TypeError, s)
      else if command = ''GET_SETTINGS'' then Some (get_settings s)
      else if command = ''WIFI_DISCONNECT'' then Some (disconnect_from_wifi ev s)
      else if command = ''GET_WIFI'' then Some (get_wifi ev s)
      else None)"

text \<open>
  The ANGLE branch: \<open>except ValueError\<close> covers the whole branch, the parse of the
  number as well as the later reads of the settings.
\<close>

definition angle_handler :: "exn \<Rightarrow> exn" where
  "angle_handler e = (if is_ValueError e then InvalidValueLengthException else e)"

definition angle_command :: "service \<Rightarrow> string \<Rightarrow> (exn + unit) \<times> service" where
  "angle_command s arg =
     (case int_of_str arg of
        None \<Rightarrow> (Inl (angle_handler ValueError), s)
      | Some a \<Rightarrow>
          (case move_and_notify (s\<lparr>angle := a\<rparr>) of
             (Inl e, s1) \<Rightarrow> (Inl (angle_handler e), s1)
           | (Inr u, s1) \<Rightarrow> (Inr (), s1)))"

definition WriteValue_body :: "env \<Rightarrow> service \<Rightarrow> payload \<Rightarrow> (exn + unit) \<times> service" where
  "WriteValue_body ev s v =
     (case v of
        BadUtf8 \<Rightarrow> (Inl UnicodeDecodeError, s)
      | Utf8 command \<Rightarrow>
          if startswith command ''ANGLE:'' then angle_command s (drop 6 command)
          else if startswith command ''CONNECT:'' then connect_to_wifi ev s (drop 8 command)
          else if startswith command ''SETTINGS:'' then update_settings ev s (drop 9 command)
          else (case command_handler ev s command of
                  Some r \<Rightarrow> r
                | None \<Rightarrow> (Inl (FailedException ''Invalid command'' None), s)))"

text \<open>\<open>except Exception as e: raise FailedException(str(e))\<close>, around the whole body.\<close>

definition reraise_failed :: "(exn + unit) \<times> service \<Rightarrow> (exn + unit) \<times> service" where
  "reraise_failed r =
     (case r of
        (Inl e, s1) \<Rightarrow> (Inl (FailedException [] (Some e)), s1)
      | (Inr u, s1) \<Rightarrow> (Inr (), s1))"

definition WriteValue :: "env \<Rightarrow> service \<Rightarrow> payload \<Rightarrow> (exn + unit) \<times> service" where
  "WriteValue ev s v =
     (if \<not> is_auth s then (Inl (FailedException ''Not authenticated'' None), s)
      else reraise_failed (WriteValue_body ev s v))"

subsection \<open>The sensor loop\<close>

text \<open>
  One pass of the body of \<open>while self.running\<close>. A tick is what the outside world
  contributes to the pass: the echo, and the value of \<open>running\<close> after the three
  seconds of dwell (the signal handler clears the flag from outside the loop). An
  exception anywhere in the body is logged and the pass ends.
\<close>

type_synonym tick = "real option \<times> bool"

definition detect_setting :: "service \<Rightarrow> exn + json" where
  "detect_setting s =
     (case getitem_str (settings s) ''settings'' of
        Inl e \<Rightarrow> Inl e
      | Inr sec \<Rightarrow> getitem_str sec ''detectDistance'')"

definition sensor_pass :: "service \<Rightarrow> tick \<Rightarrow> service" where
  "sensor_pass s t =
     (let distance = measure_distance s (fst t) in
      if distance > 0 then
        (case detect_setting s of
           Inl e \<Rightarrow> s
         | Inr dd \<Rightarrow>
             (case less_json distance dd of
                Inl e \<Rightarrow> s
              | Inr near \<Rightarrow>
                  if near then
                    (case set_open s of
                       (Inl e, s1) \<Rightarrow> s1
                     | (Inr u, s1) \<Rightarrow>
                         (let s2 = s1\<lparr>running := snd t\<rparr>
                          in if running s2 then snd (set_close s2) else s2))
                  else s))
      else s)"

fun sensor_loop :: "service \<Rightarrow> tick list \<Rightarrow> service" where
  "sensor_loop s [] = s"
| "sensor_loop s (t # ts) = (if running s then sensor_loop (sensor_pass s t) ts else s)"

subsection \<open>Notation for the statements\<close>

text \<open>
  The state after the notifications \<open>ds\<close> were passed to \<open>send_notification\<close>, in
  this order: all of them are recorded as sent, and they went out as signals when the
  client had subscribed.
\<close>

definition emitted :: "service \<Rightarrow> json list \<Rightarrow> service" where
  "emitted s ds =
     s\<lparr>sent := sent s @ ds, signals := (if notifying s then signals s @ ds else signals s)\<rparr>"

text \<open>
  The state \<open>__init__\<close> builds when neither settings.json nor default.json exists, and
  an environment whose JSON parser rejects every text and whose programs all start.
\<close>

definition fresh :: service where
  "fresh = init_fields default_settings (Content default_settings)"

definition no_json :: env where
  "no_json = \<lparr>json_loads = (\<lambda>_. None), get_wifi_status = (\<lambda>_. JNull), os_error = (\<lambda>_. None)\<rparr>"

text \<open>
  Three requests as a client writes them after \<open>SETTINGS:\<close>, and an environment
  whose JSON parser knows these three texts.
\<close>

definition request_colour :: string where
  \<open>request_colour = ''{"type": "settings", "key": "lidColour", "value": "red"}''\<close>

definition request_max :: string where
  \<open>request_max = ''{"type": "settings", "key": "maxAngle", "value": 90}''\<close>

definition request_short :: string where
  \<open>request_short = ''{"type": "settings", "key": "maxAngle"}''\<close>

definition sample_json :: env where
  "sample_json =
     \<lparr>json_loads = map_of
        [(request_colour,
            JObj [(''type'', JStr ''settings''), (''key'', JStr ''lidColour''), (''value'', JStr ''red'')]),
         (request_max,
            JObj [(''type'', JStr ''settings''), (''key'', JStr ''maxAngle''), (''value'', JInt 90)]),
         (request_short,
            JObj [(''type'', JStr ''settings''), (''key'', JStr ''maxAngle'')])],
      get_wifi_status = (\<lambda>_. JNull), os_error = (\<lambda>_. None)\<rparr>"

text \<open>
  Three passes of the sensor loop whose echoes correspond to 25 cm, 15 cm and 25 cm, with
  \<open>running\<close> still set after the dwell.
\<close>

definition sample_ticks :: "tick list" where
  "sample_ticks = [(Some (50 / 34300), True), (Some (30 / 34300), True), (Some (50 / 34300), True)]"

text \<open>A settings.json whose lower bound is negative.\<close>

definition settings_below_zero :: json where
  "settings_below_zero =
     JObj [(''settings'',
       JObj [(''minAngle'', JInt (- 10)), (''maxAngle'', JInt 180), (''detectDistance'', JInt 20)])]"




text \<open>The relation between \<open>opened\<close>, \<open>angle\<close> and the two bounds of the settings.\<close>

definition opened_inv :: "service \<Rightarrow> bool" where
  "opened_inv s =
     (case int_setting s ''minAngle'' of
        Inl e \<Rightarrow> False
      | Inr mn \<Rightarrow>
          (case int_setting s ''maxAngle'' of
             Inl e \<Rightarrow> False
           | Inr mx \<Rightarrow> opened s = (mn < angle s \<and> angle s \<le> mx)))"

section \<open>Properties\<close>

subsection \<open>Helper lemmas\<close>

lemma int_setting_update [simp]:
  "int_setting (is_auth_update f1 s) k = int_setting s k"
  "int_setting (status_update f2 s) k = int_setting s k"
  "int_setting (angle_update f3 s) k = int_setting s k"
  "int_setting (opened_update f4 s) k = int_setting s k"
  "int_setting (running_update f5 s) k = int_setting s k"
  "int_setting (notifying_update f6 s) k = int_setting s k"
  "int_setting (settings_file_update f7 s) k = int_setting s k"
  "int_setting (servo_update f8 s) k = int_setting s k"
  "int_setting (sent_update f9 s) k = int_setting s k"
  "int_setting (signals_update f10 s) k = int_setting s k"
  "int_setting (procs_update f11 s) k = int_setting s k"
  by (simp_all add: int_setting_def)

lemma send_notification_emitted: "send_notification s d = emitted s [d]"
  by (simp add: send_notification_def emitted_def Let_def)

lemma emitted_emitted: "emitted (emitted s ds) es = emitted s (ds @ es)"
  by (simp add: emitted_def)

lemma int_setting_emitted [simp]: "int_setting (emitted s ds) k = int_setting s k"
  by (simp add: emitted_def)

lemma fresh_settings [simp]:
  "int_setting fresh ''minAngle'' = Inr 0"
  "int_setting fresh ''maxAngle'' = Inr 180"
  "int_setting fresh ''detectDistance'' = Inr 20"
  by (simp_all add: fresh_def init_fields_def default_settings_def int_setting_def
      getitem_str_def py_int_def)

lemma fresh_fields [simp]:
  "is_auth fresh = False" "status fresh = True" "angle fresh = 0" "opened fresh = False"
  "running fresh = False" "notifying fresh = False" "servo fresh = []" "sent fresh = []"
  "signals fresh = []" "procs fresh = []" "settings fresh = default_settings"
  "settings_file fresh = Content default_settings"
  by (simp_all add: fresh_def init_fields_def)

lemma int_of_str_90: "int_of_str ''90'' = Some 90"
  by (simp add: int_of_str_def strip_def is_space_def digits_def is_digit_def digit_val_def)

lemma int_of_str_200: "int_of_str ''200'' = Some 200"
  by (simp add: int_of_str_def strip_def is_space_def digits_def is_digit_def digit_val_def)

text \<open>
  The servo, \<open>opened\<close> and the two notifications, for a device that is on and whose
  two bounds are readable: the pulse is set only for an angle within the bounds, the rest
  happens for every angle.
\<close>

lemma move_and_notify_on:
  assumes "status s" and "int_setting s ''minAngle'' = Inr mn"
    and "int_setting s ''maxAngle'' = Inr mx"
  shows "move_and_notify s =
     (Inr (), emitted
        (s\<lparr>opened := (mn < angle s \<and> angle s \<le> mx),
           servo := (if mn \<le> angle s \<and> angle s \<le> mx then servo s @ [pulse_width (angle s)] else servo s)\<rparr>)
        [JObj [(''Angle'', JInt (angle s))], JObj [(''Opened'', JBool (mn < angle s \<and> angle s \<le> mx))]])"
  using assms
  by (auto simp add: move_and_notify_def set_servo_angle_def angle_in_range_def opened_now_def
      send_notification_emitted emitted_emitted Let_def emitted_def)

lemma move_and_notify_off:
  "\<not> status s \<Longrightarrow> move_and_notify s = (Inl (FailedException ''NeoBin is not on'' None), s)"
  by (simp add: move_and_notify_def set_servo_angle_def)

lemma angle_command_on:
  assumes "status s" and "int_setting s ''minAngle'' = Inr mn"
    and "int_setting s ''maxAngle'' = Inr mx" and "int_of_str t = Some a"
  shows "angle_command s t =
     (Inr (), emitted
        (s\<lparr>angle := a, opened := (mn < a \<and> a \<le> mx),
           servo := (if mn \<le> a \<and> a \<le> mx then servo s @ [pulse_width a] else servo s)\<rparr>)
        [JObj [(''Angle'', JInt a)], JObj [(''Opened'', JBool (mn < a \<and> a \<le> mx))]])"
proof -
  let ?s = "s\<lparr>angle := a\<rparr>"
  have "move_and_notify ?s =
     (Inr (), emitted
        (?s\<lparr>opened := (mn < angle ?s \<and> angle ?s \<le> mx),
           servo := (if mn \<le> angle ?s \<and> angle ?s \<le> mx then servo ?s @ [pulse_width (angle ?s)] else servo ?s)\<rparr>)
        [JObj [(''Angle'', JInt (angle ?s))], JObj [(''Opened'', JBool (mn < angle ?s \<and> angle ?s \<le> mx))]])"
    by (rule move_and_notify_on) (use assms in simp_all)
  then show ?thesis
    using assms(4) by (simp add: angle_command_def)
qed

lemma write_angle_dispatch:
  "is_auth s \<Longrightarrow> WriteValue ev s (Utf8 (''ANGLE:'' @ t)) = reraise_failed (angle_command s t)"
  by (simp add: WriteValue_def WriteValue_body_def startswith_def)

subsection \<open>C1: the ANGLE command\<close>

text \<open>
  Claim C1 says that in every authenticated state \<open>ANGLE:<a>\<close> succeeds exactly when
  \<open>minAngle \<le> a \<le> maxAngle\<close>, and that outside the bounds it fails and leaves
  \<open>angle\<close> and \<open>opened\<close> as they were. The code differs twice. A device that is
  switched off refuses the command although the angle is within the bounds
  (\<open>set_servo_angle\<close> raises before it looks at the angle). And an angle outside the
  bounds is accepted: the InvalidValueLengthException is raised inside the \<open>try\<close> of
  \<open>set_servo_angle\<close> and caught by its own \<open>except Exception\<close>, and \<open>angle\<close> was
  assigned before the call. Both are shown on the default settings: \<open>ANGLE:90\<close> on a
  device that is off fails, \<open>ANGLE:200\<close> on a device that is on succeeds with
  \<open>angle = 200\<close>.
\<close>

theorem set_angle_counterexample:
  "fst (WriteValue no_json (fresh\<lparr>is_auth := True, status := False\<rparr>) (Utf8 ''ANGLE:90'')) =
     Inl (FailedException [] (Some (FailedException ''NeoBin is not on'' None)))
   \<and> WriteValue no_json (fresh\<lparr>is_auth := True\<rparr>) (Utf8 ''ANGLE:200'') =
     (Inr (), fresh\<lparr>is_auth := True, angle := 200,
        sent := [JObj [(''Angle'', JInt 200)], JObj [(''Opened'', JBool False)]]\<rparr>)"
  by (simp add: WriteValue_def WriteValue_body_def startswith_def
      angle_command_def int_of_str_90 int_of_str_200 move_and_notify_off
      move_and_notify_on [where mn = 0 and mx = 180] reraise_failed_def angle_handler_def
      is_ValueError_def emitted_def)

text \<open>
  Claim C1, amended: in every authenticated state the command \<open>ANGLE:<t>\<close> with
  \<open>int(t) = a\<close> behaves as follows. If the device is on, its settings hold integer
  bounds \<open>mn\<close> and \<open>mx\<close>, and \<open>mn \<le> a \<le> mx\<close>, the command succeeds, sets
  \<open>angle\<close> to \<open>a\<close>, sets \<open>opened\<close> to \<open>mn < a \<le> mx\<close>, sets the servo pulse
  of \<open>a\<close>, and passes the Angle notification and then the Opened notification to
  \<open>send_notification\<close>; nothing else of the state changes. If the device is off the
  command is refused with FailedException "NeoBin is not on", whatever the angle.
\<close>

theorem set_angle_in_range:
  assumes "is_auth s" and "int_of_str t = Some a"
  shows "(status s \<and> int_setting s ''minAngle'' = Inr mn \<and> int_setting s ''maxAngle'' = Inr mx
        \<and> mn \<le> a \<and> a \<le> mx
      \<longrightarrow> WriteValue ev s (Utf8 (''ANGLE:'' @ t)) =
           (Inr (), emitted
              (s\<lparr>angle := a, opened := (mn < a), servo := servo s @ [pulse_width a]\<rparr>)
              [JObj [(''Angle'', JInt a)], JObj [(''Opened'', JBool (mn < a))]]))
    \<and> (\<not> status s
      \<longrightarrow> fst (WriteValue ev s (Utf8 (''ANGLE:'' @ t))) =
           Inl (FailedException [] (Some (FailedException ''NeoBin is not on'' None))))"
proof (intro conjI impI)
  assume h: "status s \<and> int_setting s ''minAngle'' = Inr mn \<and> int_setting s ''maxAngle'' = Inr mx
        \<and> mn \<le> a \<and> a \<le> mx"
  have "WriteValue ev s (Utf8 (''ANGLE:'' @ t)) = reraise_failed (angle_command s t)"
    using assms(1) by (rule write_angle_dispatch)
  also have "angle_command s t =
     (Inr (), emitted
        (s\<lparr>angle := a, opened := (mn < a \<and> a \<le> mx),
           servo := (if mn \<le> a \<and> a \<le> mx then servo s @ [pulse_width a] else servo s)\<rparr>)
        [JObj [(''Angle'', JInt a)], JObj [(''Opened'', JBool (mn < a \<and> a \<le> mx))]])"
    using h assms(2) by (blast intro: angle_command_on)
  finally show "WriteValue ev s (Utf8 (''ANGLE:'' @ t)) =
           (Inr (), emitted
              (s\<lparr>angle := a, opened := (mn < a), servo := servo s @ [pulse_width a]\<rparr>)
              [JObj [(''Angle'', JInt a)], JObj [(''Opened'', JBool (mn < a))]])"
    using h by (simp add: reraise_failed_def)
next
  assume off: "\<not> status s"
  have "WriteValue ev s (Utf8 (''ANGLE:'' @ t)) = reraise_failed (angle_command s t)"
    using assms(1) by (rule write_angle_dispatch)
  also have "angle_command s t = (Inl (FailedException ''NeoBin is not on'' None), s\<lparr>angle := a\<rparr>)"
    using off assms(2)
    by (simp add: angle_command_def move_and_notify_off angle_handler_def is_ValueError_def)
  finally show "fst (WriteValue ev s (Utf8 (''ANGLE:'' @ t))) =
           Inl (FailedException [] (Some (FailedException ''NeoBin is not on'' None)))"
    by (simp add: reraise_failed_def)
qed

theorem set_angle_in_range_witness:
  "WriteValue no_json (fresh\<lparr>is_auth := True\<rparr>) (Utf8 ''ANGLE:90'') =
     (Inr (), fresh\<lparr>is_auth := True, angle := 90, opened := True, servo := [1500],
        sent := [JObj [(''Angle'', JInt 90)], JObj [(''Opened'', JBool True)]]\<rparr>)
   \<and> fst (WriteValue no_json (fresh\<lparr>is_auth := True, status := False\<rparr>) (Utf8 ''ANGLE:90'')) =
       Inl (FailedException [] (Some (FailedException ''NeoBin is not on'' None)))"
  using set_angle_in_range [where s = "fresh\<lparr>is_auth := True\<rparr>" and t = "''90''" and a = 90
      and mn = 0 and mx = 180 and ev = no_json]
    set_angle_in_range [where s = "fresh\<lparr>is_auth := True, status := False\<rparr>" and t = "''90''"
      and a = 90 and mn = 0 and mx = 180 and ev = no_json]
  by (simp add: int_of_str_90 emitted_def pulse_width_def)

subsection \<open>C2: the authentication gate\<close>

text \<open>
  Claim C2 says that every operation but Authenticate fails with NotAuthenticated while
  the flag is false, StartNotify included. \<open>InformChrc.StartNotify\<close> returns at
  \<open>if self.notifying\<close> before it looks at the flag: after Authenticate, StartNotify and
  a failed Authenticate, the session is unauthenticated and StartNotify returns normally.
\<close>

theorem unauthenticated_start_notify_counterexample:
  "\<not> is_auth (snd (AuthChrc_WriteValue (snd (StartNotify (snd (AuthChrc_WriteValue fresh PASS)))) ''guess''))
   \<and> fst (StartNotify (snd (AuthChrc_WriteValue (snd (StartNotify (snd (AuthChrc_WriteValue fresh PASS)))) ''guess'')))
       = Inr ()"
  by (simp add: AuthChrc_WriteValue_def StartNotify_def PASS_def)

text \<open>
  Claim C2, amended: while \<open>is_auth\<close> is false, every write to the command
  characteristic (whatever the payload) and every read fail with FailedException
  "Not authenticated", and so does StartNotify unless the client is subscribed already,
  in which case it returns normally. In all these cases the state stays as it was: no
  field changes, no servo pulse, no notification, no process.
\<close>

theorem unauthenticated_rejected:
  assumes "\<not> is_auth s"
  shows "WriteValue ev s v = (Inl (FailedException ''Not authenticated'' None), s)
    \<and> ReadValue s sel = Inl (FailedException ''Not authenticated'' None)
    \<and> StartNotify s =
        (if notifying s then (Inr (), s) else (Inl (FailedException ''Not authenticated'' None), s))"
  using assms by (simp add: WriteValue_def ReadValue_def StartNotify_def)

theorem unauthenticated_rejected_witness:
  "\<not> is_auth fresh
   \<and> WriteValue no_json fresh (Utf8 ''OPEN'') = (Inl (FailedException ''Not authenticated'' None), fresh)
   \<and> ReadValue fresh (JObj []) = Inl (FailedException ''Not authenticated'' None)
   \<and> StartNotify fresh = (Inl (FailedException ''Not authenticated'' None), fresh)"
  using unauthenticated_rejected [of fresh no_json "Utf8 ''OPEN''" "JObj []"]
  by simp

subsection \<open>C4: reads\<close>

text \<open>
  What the table of \<open>InformChrc\<close> would answer to a selector that is a string: the
  field for STATUS, OPENED and ANGLE, FailedException "Invalid command" for any other
  string, and "Not authenticated" before either while the flag is false.
\<close>

lemma read_value_string_selector:
  "(is_auth s \<longrightarrow>
      ReadValue s (JStr ''STATUS'') = Inr (JBool (status s))
      \<and> ReadValue s (JStr ''OPENED'') = Inr (JBool (opened s))
      \<and> ReadValue s (JStr ''ANGLE'') = Inr (JInt (angle s)))
   \<and> (\<not> is_auth s \<longrightarrow> ReadValue s x = Inl (FailedException ''Not authenticated'' None))
   \<and> (is_auth s \<and> sel \<noteq> ''STATUS'' \<and> sel \<noteq> ''OPENED'' \<and> sel \<noteq> ''ANGLE'' \<longrightarrow>
        ReadValue s (JStr sel) = Inl (FailedException ''Invalid command'' None))"
  by (simp add: ReadValue_def)

text \<open>
  Claim C4 says that an authenticated read with a recognized selector returns the
  corresponding field. \<open>ReadValue\<close> looks its argument \<open>options\<close> up in the handler
  table, and over D-Bus that argument is the options dictionary of the read (signature
  \<open>a{sv}\<close>): the lookup raises a TypeError for every dictionary, so an authenticated
  read over D-Bus returns no field and never reaches "Invalid command" either. The code
  attempts what the claim says (the table of STATUS, OPENED and ANGLE) and misses it by
  looking up the wrong value.
\<close>

theorem read_value_options_dictionary:
  "ReadValue (s\<lparr>is_auth := True\<rparr>) (JObj kvs) = Inl TypeError"
  by (simp add: ReadValue_def)

subsection \<open>C7: authentication\<close>

text \<open>
  Claim C7: whatever the flag was, a write of the exact credential bytes to the
  authentication characteristic returns normally and sets \<open>is_auth\<close>; a write of any
  other bytes raises FailedException "Authentication Failed" and clears \<open>is_auth\<close>, so
  a failed attempt ends a session that was authenticated.
\<close>

theorem authenticate_exact_match:
  "AuthChrc_WriteValue s PASS = (Inr (), s\<lparr>is_auth := True\<rparr>)
   \<and> (v \<noteq> PASS \<longrightarrow>
        AuthChrc_WriteValue s v =
          (Inl (FailedException ''Authentication Failed'' None), s\<lparr>is_auth := False\<rparr>))"
  by (simp add: AuthChrc_WriteValue_def)

theorem authenticate_exact_match_witness:
  "AuthChrc_WriteValue (fresh\<lparr>is_auth := True\<rparr>) ''NeoBin'' = (Inr (), fresh\<lparr>is_auth := True\<rparr>)
   \<and> AuthChrc_WriteValue (fresh\<lparr>is_auth := True\<rparr>) ''neobin'' =
        (Inl (FailedException ''Authentication Failed'' None), fresh\<lparr>is_auth := False\<rparr>)"
  using authenticate_exact_match [of "fresh\<lparr>is_auth := True\<rparr>" "''neobin''"]
  by (simp add: PASS_def)

subsection \<open>C3: UpdateSettings\<close>

lemma write_settings_dispatch:
  "is_auth s \<Longrightarrow>
     WriteValue ev s (Utf8 (''SETTINGS:'' @ body)) = reraise_failed (update_settings ev s body)"
  by (simp add: WriteValue_def WriteValue_body_def startswith_def)

lemma update_settings_stored:
  assumes "json_loads ev body = Some d"
    and "getitem_str d ''type'' = Inr (JStr t)" and "getitem_str d ''key'' = Inr (JStr k)"
    and "getitem_str d ''value'' = Inr v"
    and "settings_file s = Content (JObj doc)" and "map_of doc t = Some (JObj sec)"
  shows "update_settings ev s body =
     (Inr (), emitted
        (s\<lparr>settings_file := Content (JObj (dict_update doc t (JObj (dict_update sec k v)))),
           settings := JObj (dict_update doc t (JObj (dict_update sec k v)))\<rparr>)
        [JObj [(k, v)]])"
  using assms
  by (simp add: update_settings_def save_json_def setitem2_def getitem_def setitem_def
      key_text_def send_notification_emitted)

lemma update_settings_malformed:
  assumes "json_loads ev body = None
     \<or> (json_loads ev body = Some d
          \<and> (getitem_str d ''type'' = Inl KeyError \<or> getitem_str d ''key'' = Inl KeyError
               \<or> getitem_str d ''value'' = Inl KeyError))"
  shows "update_settings ev s body = (Inl InvalidValueLengthException, s)"
  using assms
  by (auto simp add: update_settings_def settings_handler_def getitem_str_def
      split: json.splits option.splits sum.splits)

text \<open>
  Claim C3, amended: \<open>update_settings\<close> and \<open>save_json\<close> hold no list of accepted
  keys. In an authenticated state, whenever the request is a JSON object with the members
  \<open>type\<close>, \<open>key\<close> and \<open>value\<close>, \<open>type\<close> and \<open>key\<close> are strings, and
  settings.json holds an object whose member \<open>type\<close> is an object, the command stores
  \<open>value\<close> under \<open>key\<close> in that member, whatever the key is: settings.json and
  the cached settings become the updated document and exactly one notification, the pair
  of the key and the value, is passed to \<open>send_notification\<close>. A request that is not
  JSON, or an object that lacks one of the three members, fails with
  InvalidValueLengthException (reraised as FailedException) and leaves the whole state as
  it was.
\<close>

theorem update_settings_any_key:
  assumes "is_auth s"
  shows "(json_loads ev body = Some d
        \<and> getitem_str d ''type'' = Inr (JStr t) \<and> getitem_str d ''key'' = Inr (JStr k)
        \<and> getitem_str d ''value'' = Inr v
        \<and> settings_file s = Content (JObj doc) \<and> map_of doc t = Some (JObj sec)
      \<longrightarrow> WriteValue ev s (Utf8 (''SETTINGS:'' @ body)) =
           (Inr (), emitted
              (s\<lparr>settings_file := Content (JObj (dict_update doc t (JObj (dict_update sec k v)))),
                 settings := JObj (dict_update doc t (JObj (dict_update sec k v)))\<rparr>)
              [JObj [(k, v)]]))
    \<and> (json_loads ev body = None
        \<or> (json_loads ev body = Some d
             \<and> (getitem_str d ''type'' = Inl KeyError \<or> getitem_str d ''key'' = Inl KeyError
                  \<or> getitem_str d ''value'' = Inl KeyError))
      \<longrightarrow> WriteValue ev s (Utf8 (''SETTINGS:'' @ body)) =
           (Inl (FailedException [] (Some InvalidValueLengthException)), s))"
proof (intro conjI impI)
  assume a: "json_loads ev body = Some d
        \<and> getitem_str d ''type'' = Inr (JStr t) \<and> getitem_str d ''key'' = Inr (JStr k)
        \<and> getitem_str d ''value'' = Inr v
        \<and> settings_file s = Content (JObj doc) \<and> map_of doc t = Some (JObj sec)"
  have "WriteValue ev s (Utf8 (''SETTINGS:'' @ body)) = reraise_failed (update_settings ev s body)"
    using assms by (rule write_settings_dispatch)
  also have "update_settings ev s body =
     (Inr (), emitted
        (s\<lparr>settings_file := Content (JObj (dict_update doc t (JObj (dict_update sec k v)))),
           settings := JObj (dict_update doc t (JObj (dict_update sec k v)))\<rparr>)
        [JObj [(k, v)]])"
    using a by (blast intro: update_settings_stored)
  finally show "WriteValue ev s (Utf8 (''SETTINGS:'' @ body)) =
           (Inr (), emitted
              (s\<lparr>settings_file := Content (JObj (dict_update doc t (JObj (dict_update sec k v)))),
                 settings := JObj (dict_update doc t (JObj (dict_update sec k v)))\<rparr>)
              [JObj [(k, v)]])"
    by (simp add: reraise_failed_def)
next
  assume b: "json_loads ev body = None
        \<or> (json_loads ev body = Some d
             \<and> (getitem_str d ''type'' = Inl KeyError \<or> getitem_str d ''key'' = Inl KeyError
                  \<or> getitem_str d ''value'' = Inl KeyError))"
  have "WriteValue ev s (Utf8 (''SETTINGS:'' @ body)) = reraise_failed (update_settings ev s body)"
    using assms by (rule write_settings_dispatch)
  also have "update_settings ev s body = (Inl InvalidValueLengthException, s)"
    using b by (rule update_settings_malformed)
  finally show "WriteValue ev s (Utf8 (''SETTINGS:'' @ body)) =
           (Inl (FailedException [] (Some InvalidValueLengthException)), s)"
    by (simp add: reraise_failed_def)
qed

lemma sample_loads [simp]:
  "json_loads sample_json request_colour =
     Some (JObj [(''type'', JStr ''settings''), (''key'', JStr ''lidColour''), (''value'', JStr ''red'')])"
  "json_loads sample_json request_max =
     Some (JObj [(''type'', JStr ''settings''), (''key'', JStr ''maxAngle''), (''value'', JInt 90)])"
  "json_loads sample_json request_short =
     Some (JObj [(''type'', JStr ''settings''), (''key'', JStr ''maxAngle'')])"
  by (simp_all add: sample_json_def request_colour_def request_max_def request_short_def)

theorem update_settings_any_key_witness:
  "WriteValue sample_json (fresh\<lparr>is_auth := True\<rparr>) (Utf8 (''SETTINGS:'' @ request_max)) =
     (Inr (), fresh\<lparr>is_auth := True,
        settings_file := Content (JObj [(''settings'',
          JObj [(''minAngle'', JInt 0), (''maxAngle'', JInt 90), (''detectDistance'', JInt 20)])]),
        settings := JObj [(''settings'',
          JObj [(''minAngle'', JInt 0), (''maxAngle'', JInt 90), (''detectDistance'', JInt 20)])],
        sent := [JObj [(''maxAngle'', JInt 90)]]\<rparr>)
   \<and> WriteValue sample_json (fresh\<lparr>is_auth := True\<rparr>) (Utf8 (''SETTINGS:'' @ request_short)) =
     (Inl (FailedException [] (Some InvalidValueLengthException)), fresh\<lparr>is_auth := True\<rparr>)"
  using update_settings_any_key [of "fresh\<lparr>is_auth := True\<rparr>" sample_json request_max
      "JObj [(''type'', JStr ''settings''), (''key'', JStr ''maxAngle''), (''value'', JInt 90)]"
      "''settings''" "''maxAngle''" "JInt 90"
      "[(''settings'', JObj [(''minAngle'', JInt 0), (''maxAngle'', JInt 180), (''detectDistance'', JInt 20)])]"
      "[(''minAngle'', JInt 0), (''maxAngle'', JInt 180), (''detectDistance'', JInt 20)]"]
    update_settings_any_key [of "fresh\<lparr>is_auth := True\<rparr>" sample_json request_short
      "JObj [(''type'', JStr ''settings''), (''key'', JStr ''maxAngle'')]"]
  by (simp add: getitem_str_def default_settings_def emitted_def)

text \<open>
  Claim C3 says that a key outside \<open>minAngle\<close>, \<open>maxAngle\<close>, \<open>detectDistance\<close>
  fails with InvalidArgument and leaves the cached settings as they were. On the default
  settings the key \<open>lidColour\<close> is stored, cached and notified like any other.
\<close>

theorem update_settings_counterexample:
  "WriteValue sample_json (fresh\<lparr>is_auth := True\<rparr>) (Utf8 (''SETTINGS:'' @ request_colour)) =
     (Inr (), fresh\<lparr>is_auth := True,
        settings_file := Content (JObj [(''settings'',
          JObj [(''minAngle'', JInt 0), (''maxAngle'', JInt 180), (''detectDistance'', JInt 20),
                (''lidColour'', JStr ''red'')])]),
        settings := JObj [(''settings'',
          JObj [(''minAngle'', JInt 0), (''maxAngle'', JInt 180), (''detectDistance'', JInt 20),
                (''lidColour'', JStr ''red'')])],
        sent := [JObj [(''lidColour'', JStr ''red'')]]\<rparr>)"
  by (simp add: WriteValue_def WriteValue_body_def startswith_def reraise_failed_def
      update_settings_def getitem_str_def save_json_def setitem2_def getitem_def setitem_def
      key_text_def send_notification_emitted emitted_def default_settings_def)

subsection \<open>The sensor loop\<close>

lemma set_open_on:
  assumes "status s" and "int_setting s ''minAngle'' = Inr mn"
    and "int_setting s ''maxAngle'' = Inr mx"
  shows "set_open s =
     (Inr (), emitted
        (s\<lparr>angle := mx, opened := (mn < mx),
           servo := (if mn \<le> mx then servo s @ [pulse_width mx] else servo s)\<rparr>)
        [JObj [(''Angle'', JInt mx)], JObj [(''Opened'', JBool (mn < mx))]])"
  using assms by (simp add: set_open_def move_and_notify_on [where mn = mn and mx = mx])

lemma set_close_on:
  assumes "status s" and "int_setting s ''minAngle'' = Inr mn"
    and "int_setting s ''maxAngle'' = Inr mx"
  shows "set_close s =
     (Inr (), emitted
        (s\<lparr>angle := mn, opened := False,
           servo := (if mn \<le> mx then servo s @ [pulse_width mn] else servo s)\<rparr>)
        [JObj [(''Angle'', JInt mn)], JObj [(''Opened'', JBool False)]])"
  using assms by (simp add: set_close_def move_and_notify_on [where mn = mn and mx = mx])

lemma measure_distance_range: "0 \<le> measure_distance s e \<and> measure_distance s e < 300"
  by (simp add: measure_distance_def Let_def split: option.splits)

lemma measure_distance_status: "0 < measure_distance s e \<Longrightarrow> status s"
  by (simp add: measure_distance_def split: if_splits)

lemma sensor_pass_far:
  assumes "detect_setting s = Inr (JInt dd)"
    and "measure_distance s e = 0 \<or> real_of_int dd \<le> measure_distance s e"
  shows "sensor_pass s (e, still) = s"
  using assms by (auto simp add: sensor_pass_def less_json_def Let_def)

lemma sensor_pass_near:
  assumes "int_setting s ''minAngle'' = Inr mn" and "int_setting s ''maxAngle'' = Inr mx"
    and "detect_setting s = Inr (JInt dd)"
    and "0 < measure_distance s e" and "measure_distance s e < real_of_int dd"
  shows "sensor_pass s (e, still) =
     (if still then
        emitted (s\<lparr>angle := mn, opened := False, running := True,
                   servo := servo s @ (if mn \<le> mx then [pulse_width mx, pulse_width mn] else [])\<rparr>)
          [JObj [(''Angle'', JInt mx)], JObj [(''Opened'', JBool (mn < mx))],
           JObj [(''Angle'', JInt mn)], JObj [(''Opened'', JBool False)]]
      else
        emitted (s\<lparr>angle := mx, opened := (mn < mx), running := False,
                   servo := servo s @ (if mn \<le> mx then [pulse_width mx] else [])\<rparr>)
          [JObj [(''Angle'', JInt mx)], JObj [(''Opened'', JBool (mn < mx))]])"
proof -
  have on: "status s"
    using assms(4) by (rule measure_distance_status)
  let ?s1 = "emitted
        (s\<lparr>angle := mx, opened := (mn < mx),
           servo := (if mn \<le> mx then servo s @ [pulse_width mx] else servo s)\<rparr>)
        [JObj [(''Angle'', JInt mx)], JObj [(''Opened'', JBool (mn < mx))]]"
  have opn: "set_open s = (Inr (), ?s1)"
    using on assms(1,2) by (rule set_open_on)
  have pass: "sensor_pass s (e, still) =
      (if still then snd (set_close (?s1\<lparr>running := True\<rparr>)) else ?s1\<lparr>running := False\<rparr>)"
    using assms(3-5) opn by (simp add: sensor_pass_def less_json_def Let_def)
  have cls: "set_close (?s1\<lparr>running := True\<rparr>) =
     (Inr (), emitted
        ((?s1\<lparr>running := True\<rparr>)\<lparr>angle := mn, opened := False,
           servo := (if mn \<le> mx then servo (?s1\<lparr>running := True\<rparr>) @ [pulse_width mn]
                     else servo (?s1\<lparr>running := True\<rparr>))\<rparr>)
        [JObj [(''Angle'', JInt mn)], JObj [(''Opened'', JBool False)]])"
    by (rule set_close_on) (use on assms(1,2) in \<open>simp_all add: emitted_def\<close>)
  show ?thesis
    by (simp add: pass cls) (simp add: emitted_def)
qed

lemma detect_setting_update [simp]:
  "detect_setting (is_auth_update f1 s) = detect_setting s"
  "detect_setting (status_update f2 s) = detect_setting s"
  "detect_setting (angle_update f3 s) = detect_setting s"
  "detect_setting (opened_update f4 s) = detect_setting s"
  "detect_setting (running_update f5 s) = detect_setting s"
  "detect_setting (notifying_update f6 s) = detect_setting s"
  "detect_setting (settings_file_update f7 s) = detect_setting s"
  "detect_setting (servo_update f8 s) = detect_setting s"
  "detect_setting (sent_update f9 s) = detect_setting s"
  "detect_setting (signals_update f10 s) = detect_setting s"
  "detect_setting (procs_update f11 s) = detect_setting s"
  by (simp_all add: detect_setting_def)

lemma detect_fresh [simp]: "detect_setting fresh = Inr (JInt 20)"
  by (simp add: detect_setting_def default_settings_def getitem_str_def)

lemma sample_run:
  "map (\<lambda>t. measure_distance (fresh\<lparr>running := True\<rparr>) (fst t)) sample_ticks = [25, 15, 25]
   \<and> sensor_loop (fresh\<lparr>running := True\<rparr>) sample_ticks =
      fresh\<lparr>running := True, servo := [500, 2500],
        sent := [JObj [(''Angle'', JInt 180)], JObj [(''Opened'', JBool True)],
                 JObj [(''Angle'', JInt 0)], JObj [(''Opened'', JBool False)]]\<rparr>"
proof -
  let ?s0 = "fresh\<lparr>running := True\<rparr>"
  let ?s1 = "fresh\<lparr>running := True, servo := [500, 2500],
        sent := [JObj [(''Angle'', JInt 180)], JObj [(''Opened'', JBool True)],
                 JObj [(''Angle'', JInt 0)], JObj [(''Opened'', JBool False)]]\<rparr>"
  have m: "measure_distance ?s0 (Some (50 / 34300)) = 25"
    "measure_distance ?s0 (Some (30 / 34300)) = 15"
    "measure_distance ?s1 (Some (50 / 34300)) = 25"
    by (simp_all add: measure_distance_def)
  have p1: "sensor_pass ?s0 (Some (50 / 34300), True) = ?s0"
    by (rule sensor_pass_far [where dd = 20]) (simp_all add: measure_distance_def)
  have p2: "sensor_pass ?s0 (Some (30 / 34300), True) = ?s1"
    using sensor_pass_near [of ?s0 0 180 20 "Some (30 / 34300)" True]
    by (simp add: measure_distance_def emitted_def pulse_width_def)
  have p3: "sensor_pass ?s1 (Some (50 / 34300), True) = ?s1"
    by (rule sensor_pass_far [where dd = 20]) (simp_all add: measure_distance_def)
  show ?thesis
    using m p1 p2 p3 by (simp add: sample_ticks_def)
qed


lemma measure_distance_update [simp]:
  "measure_distance (is_auth_update f1 s) e = measure_distance s e"
  by (simp add: measure_distance_def)

lemma move_and_notify_auth:
  "move_and_notify (s\<lparr>is_auth := b\<rparr>) =
     (fst (move_and_notify s), (snd (move_and_notify s))\<lparr>is_auth := b\<rparr>)"
  by (simp add: move_and_notify_def set_servo_angle_def angle_in_range_def opened_now_def
      send_notification_emitted emitted_def Let_def split: sum.splits bool.splits)

lemma set_open_auth:
  "set_open (s\<lparr>is_auth := b\<rparr>) = (fst (set_open s), (snd (set_open s))\<lparr>is_auth := b\<rparr>)"
proof -
  have "move_and_notify (s\<lparr>is_auth := b, angle := x\<rparr>) =
     (fst (move_and_notify (s\<lparr>angle := x\<rparr>)), (snd (move_and_notify (s\<lparr>angle := x\<rparr>)))\<lparr>is_auth := b\<rparr>)" for x
  proof -
    have "s\<lparr>is_auth := b, angle := x\<rparr> = (s\<lparr>angle := x\<rparr>)\<lparr>is_auth := b\<rparr>"
      by simp
    then show ?thesis
      by (simp only: move_and_notify_auth)
  qed
  then show ?thesis
    by (simp add: set_open_def split: sum.splits)
qed

lemma set_close_auth:
  "set_close (s\<lparr>is_auth := b\<rparr>) = (fst (set_close s), (snd (set_close s))\<lparr>is_auth := b\<rparr>)"
proof -
  have "move_and_notify (s\<lparr>is_auth := b, angle := x\<rparr>) =
     (fst (move_and_notify (s\<lparr>angle := x\<rparr>)), (snd (move_and_notify (s\<lparr>angle := x\<rparr>)))\<lparr>is_auth := b\<rparr>)" for x
  proof -
    have "s\<lparr>is_auth := b, angle := x\<rparr> = (s\<lparr>angle := x\<rparr>)\<lparr>is_auth := b\<rparr>"
      by simp
    then show ?thesis
      by (simp only: move_and_notify_auth)
  qed
  then show ?thesis
    by (simp add: set_close_def split: sum.splits)
qed

lemma sensor_pass_auth:
  "sensor_pass (s\<lparr>is_auth := b\<rparr>) t = (sensor_pass s t)\<lparr>is_auth := b\<rparr>"
proof -
  have c: "snd (set_close (x\<lparr>is_auth := b, running := r\<rparr>)) =
      (snd (set_close (x\<lparr>running := r\<rparr>)))\<lparr>is_auth := b\<rparr>" for x r
  proof -
    have "x\<lparr>is_auth := b, running := r\<rparr> = (x\<lparr>running := r\<rparr>)\<lparr>is_auth := b\<rparr>"
      by simp
    then show ?thesis
      by (simp only: set_close_auth snd_conv)
  qed
  show ?thesis
    by (cases "set_open s")
      (simp add: sensor_pass_def set_open_auth c Let_def split: sum.splits)
qed

subsection \<open>C8: one pass of the sensor loop\<close>

text \<open>
  Claim C8. One pass of the loop body, for settings with integer bounds \<open>mn\<close>,
  \<open>mx\<close> and an integer \<open>detectDistance\<close>, where \<open>d\<close> is the reading
  \<open>measure_distance\<close> returns: if \<open>0 < d < detectDistance\<close> the pass performs
  \<open>set_open\<close> once (one Angle and one Opened notification for \<open>mx\<close>) and then,
  only if \<open>running\<close> is still set after the dwell, \<open>set_close\<close> once (one Angle
  and one Opened notification for \<open>mn\<close>); each of the two pulses the servo once, as
  long as the bounds are in order (\<open>set_servo_angle\<close> sets no pulse for an angle it
  finds outside them). If \<open>d = 0\<close> or \<open>d \<ge> detectDistance\<close> the pass leaves the state
  as it was. A reading is never negative. For the readings 25, 15, 25 with
  \<open>detectDistance = 20\<close> the loop performs exactly one \<open>set_open\<close> followed by
  exactly one \<open>set_close\<close>.
\<close>

theorem sensor_pass_open_then_close:
  "(int_setting s ''minAngle'' = Inr mn \<and> int_setting s ''maxAngle'' = Inr mx
      \<and> detect_setting s = Inr (JInt dd)
    \<longrightarrow> (0 < measure_distance s e \<and> measure_distance s e < real_of_int dd
          \<longrightarrow> sensor_pass s (e, still) =
               (if still then
                  emitted (s\<lparr>angle := mn, opened := False, running := True,
                             servo := servo s @ (if mn \<le> mx then [pulse_width mx, pulse_width mn] else [])\<rparr>)
                    [JObj [(''Angle'', JInt mx)], JObj [(''Opened'', JBool (mn < mx))],
                     JObj [(''Angle'', JInt mn)], JObj [(''Opened'', JBool False)]]
                else
                  emitted (s\<lparr>angle := mx, opened := (mn < mx), running := False,
                             servo := servo s @ (if mn \<le> mx then [pulse_width mx] else [])\<rparr>)
                    [JObj [(''Angle'', JInt mx)], JObj [(''Opened'', JBool (mn < mx))]]))
        \<and> (measure_distance s e = 0 \<or> real_of_int dd \<le> measure_distance s e
          \<longrightarrow> sensor_pass s (e, still) = s))
   \<and> 0 \<le> measure_distance s e
   \<and> map (\<lambda>t. measure_distance (fresh\<lparr>running := True\<rparr>) (fst t)) sample_ticks = [25, 15, 25]
   \<and> sensor_loop (fresh\<lparr>running := True\<rparr>) sample_ticks =
      fresh\<lparr>running := True, servo := [500, 2500],
        sent := [JObj [(''Angle'', JInt 180)], JObj [(''Opened'', JBool True)],
                 JObj [(''Angle'', JInt 0)], JObj [(''Opened'', JBool False)]]\<rparr>"
  using sensor_pass_near [of s mn mx dd e still] sensor_pass_far [of s dd e still]
    measure_distance_range [of s e] sample_run
  by blast

theorem sensor_pass_open_then_close_witness:
  "sensor_pass (fresh\<lparr>running := True\<rparr>) (Some (30 / 34300), True) =
      fresh\<lparr>running := True, servo := [500, 2500],
        sent := [JObj [(''Angle'', JInt 180)], JObj [(''Opened'', JBool True)],
                 JObj [(''Angle'', JInt 0)], JObj [(''Opened'', JBool False)]]\<rparr>
   \<and> sensor_pass (fresh\<lparr>running := True\<rparr>) (Some (30 / 34300), False) =
      fresh\<lparr>opened := True, angle := 180, servo := [500],
        sent := [JObj [(''Angle'', JInt 180)], JObj [(''Opened'', JBool True)]]\<rparr>
   \<and> sensor_pass (fresh\<lparr>running := True\<rparr>) (Some (50 / 34300), True) = fresh\<lparr>running := True\<rparr>
   \<and> sensor_pass (fresh\<lparr>running := True\<rparr>) (None, True) = fresh\<lparr>running := True\<rparr>"
  using sensor_pass_open_then_close [of "fresh\<lparr>running := True\<rparr>" 0 180 20 "Some (30 / 34300)" True]
    sensor_pass_open_then_close [of "fresh\<lparr>running := True\<rparr>" 0 180 20 "Some (30 / 34300)" False]
    sensor_pass_open_then_close [of "fresh\<lparr>running := True\<rparr>" 0 180 20 "Some (50 / 34300)" True]
    sensor_pass_open_then_close [of "fresh\<lparr>running := True\<rparr>" 0 180 20 None True]
  by (simp add: measure_distance_def emitted_def pulse_width_def)

subsection \<open>C10: the sensor loop and authentication\<close>

text \<open>
  Claim C10. The pass of the sensor loop never reads \<open>is_auth\<close>: with the flag false
  a reading \<open>0 < d < detectDistance\<close> opens and closes the lid as in C8 (\<open>angle\<close>
  and \<open>opened\<close> are assigned, the servo is pulsed, the Angle and Opened notifications
  are passed to \<open>send_notification\<close>), and for every state and tick the pass commutes
  with any assignment to the flag.
\<close>

theorem sensor_pass_unauthenticated:
  "(\<not> is_auth s \<and> int_setting s ''minAngle'' = Inr mn \<and> int_setting s ''maxAngle'' = Inr mx
      \<and> detect_setting s = Inr (JInt dd)
      \<and> 0 < measure_distance s e \<and> measure_distance s e < real_of_int dd
    \<longrightarrow> sensor_pass s (e, still) =
          (if still then
             emitted (s\<lparr>angle := mn, opened := False, running := True,
                        servo := servo s @ (if mn \<le> mx then [pulse_width mx, pulse_width mn] else [])\<rparr>)
               [JObj [(''Angle'', JInt mx)], JObj [(''Opened'', JBool (mn < mx))],
                JObj [(''Angle'', JInt mn)], JObj [(''Opened'', JBool False)]]
           else
             emitted (s\<lparr>angle := mx, opened := (mn < mx), running := False,
                        servo := servo s @ (if mn \<le> mx then [pulse_width mx] else [])\<rparr>)
               [JObj [(''Angle'', JInt mx)], JObj [(''Opened'', JBool (mn < mx))]]))
   \<and> sensor_pass (s\<lparr>is_auth := b\<rparr>) t = (sensor_pass s t)\<lparr>is_auth := b\<rparr>"
  using sensor_pass_near [of s mn mx dd e still] sensor_pass_auth [of b s t] by blast

theorem sensor_pass_unauthenticated_witness:
  "\<not> is_auth (fresh\<lparr>running := True, notifying := True\<rparr>)
   \<and> sensor_pass (fresh\<lparr>running := True, notifying := True\<rparr>) (Some (30 / 34300), True) =
      fresh\<lparr>running := True, notifying := True, servo := [500, 2500],
        sent := [JObj [(''Angle'', JInt 180)], JObj [(''Opened'', JBool True)],
                 JObj [(''Angle'', JInt 0)], JObj [(''Opened'', JBool False)]],
        signals := [JObj [(''Angle'', JInt 180)], JObj [(''Opened'', JBool True)],
                 JObj [(''Angle'', JInt 0)], JObj [(''Opened'', JBool False)]]\<rparr>"
  using sensor_pass_unauthenticated [of "fresh\<lparr>running := True, notifying := True\<rparr>" 0 180 20 "Some (30 / 34300)" True]
  by (simp add: measure_distance_def emitted_def pulse_width_def)

subsection \<open>C5: opened, angle and the bounds\<close>

lemma opened_inv_same:
  "settings s' = settings s \<Longrightarrow> angle s' = angle s \<Longrightarrow> opened s' = opened s \<Longrightarrow>
     opened_inv s' = opened_inv s"
proof -
  assume a: "settings s' = settings s" "angle s' = angle s" "opened s' = opened s"
  have "int_setting s' k = int_setting s k" for k
    using a(1) by (simp add: int_setting_def)
  then show ?thesis
    using a(2,3) by (simp add: opened_inv_def split: sum.splits)
qed

lemma opened_inv_bounds:
  assumes "opened_inv s"
  obtains mn mx where "int_setting s ''minAngle'' = Inr mn" and "int_setting s ''maxAngle'' = Inr mx"
    and "opened s = (mn < angle s \<and> angle s \<le> mx)"
  using assms by (auto simp add: opened_inv_def split: sum.splits)

lemma move_and_notify_status: "fst (move_and_notify s) = Inr () \<Longrightarrow> status s"
  by (simp add: move_and_notify_def set_servo_angle_def split: if_splits)

lemma move_and_notify_inv:
  assumes "int_setting s ''minAngle'' = Inr mn" and "int_setting s ''maxAngle'' = Inr mx"
    and "fst (move_and_notify s) = Inr ()"
  shows "opened_inv (snd (move_and_notify s))"
proof -
  have "status s"
    using assms(3) by (rule move_and_notify_status)
  then show ?thesis
    using assms(1,2)
    by (simp add: move_and_notify_on [where mn = mn and mx = mx] opened_inv_def emitted_def)
qed

lemma angle_command_inv:
  assumes "opened_inv s" and "fst (angle_command s t) = Inr ()"
  shows "opened_inv (snd (angle_command s t))"
proof -
  obtain mn mx where b: "int_setting s ''minAngle'' = Inr mn" "int_setting s ''maxAngle'' = Inr mx"
    using assms(1) by (rule opened_inv_bounds)
  obtain a where a: "int_of_str t = Some a"
    using assms(2) by (cases "int_of_str t") (simp_all add: angle_command_def)
  obtain r s1 where m: "move_and_notify (s\<lparr>angle := a\<rparr>) = (r, s1)"
    by (cases "move_and_notify (s\<lparr>angle := a\<rparr>)")
  have r: "r = Inr ()"
    using assms(2) a m by (cases r) (simp_all add: angle_command_def)
  have "opened_inv (snd (move_and_notify (s\<lparr>angle := a\<rparr>)))"
    by (rule move_and_notify_inv [where mn = mn and mx = mx]) (use b m r in simp_all)
  then show ?thesis
    using a m r by (simp add: angle_command_def)
qed

lemma set_open_inv:
  assumes "opened_inv s" and "fst (set_open s) = Inr ()"
  shows "opened_inv (snd (set_open s))"
proof -
  obtain mn mx where b: "int_setting s ''minAngle'' = Inr mn" "int_setting s ''maxAngle'' = Inr mx"
    using assms(1) by (rule opened_inv_bounds)
  have ok: "fst (move_and_notify (s\<lparr>angle := mx\<rparr>)) = Inr ()"
    using assms(2) b by (simp add: set_open_def)
  have "opened_inv (snd (move_and_notify (s\<lparr>angle := mx\<rparr>)))"
    by (rule move_and_notify_inv [where mn = mn and mx = mx]) (use b ok in simp_all)
  then show ?thesis
    using b by (simp add: set_open_def)
qed

lemma set_close_inv:
  assumes "opened_inv s" and "fst (set_close s) = Inr ()"
  shows "opened_inv (snd (set_close s))"
proof -
  obtain mn mx where b: "int_setting s ''minAngle'' = Inr mn" "int_setting s ''maxAngle'' = Inr mx"
    using assms(1) by (rule opened_inv_bounds)
  have ok: "fst (move_and_notify (s\<lparr>angle := mn\<rparr>)) = Inr ()"
    using assms(2) b by (simp add: set_close_def)
  have "opened_inv (snd (move_and_notify (s\<lparr>angle := mn\<rparr>)))"
    by (rule move_and_notify_inv [where mn = mn and mx = mx]) (use b ok in simp_all)
  then show ?thesis
    using b by (simp add: set_close_def)
qed

lemma emitted_fields [simp]:
  "settings (emitted s ds) = settings s" "angle (emitted s ds) = angle s"
  "opened (emitted s ds) = opened s" "status (emitted s ds) = status s"
  "is_auth (emitted s ds) = is_auth s" "running (emitted s ds) = running s"
  by (simp_all add: emitted_def)

lemma set_status_same:
  "settings (snd (set_status s)) = settings s \<and> angle (snd (set_status s)) = angle s
   \<and> opened (snd (set_status s)) = opened s"
  by (simp add: set_status_def send_notification_emitted Let_def)

lemma get_settings_same:
  "settings (snd (get_settings s)) = settings s \<and> angle (snd (get_settings s)) = angle s
   \<and> opened (snd (get_settings s)) = opened s"
  by (simp add: get_settings_def send_notification_emitted Let_def split: sum.splits)

lemma get_wifi_same:
  "settings (snd (get_wifi ev s)) = settings s \<and> angle (snd (get_wifi ev s)) = angle s
   \<and> opened (snd (get_wifi ev s)) = opened s"
  by (simp add: get_wifi_def send_notification_emitted)

lemma disconnect_same:
  "settings (snd (disconnect_from_wifi ev s)) = settings s
   \<and> angle (snd (disconnect_from_wifi ev s)) = angle s
   \<and> opened (snd (disconnect_from_wifi ev s)) = opened s"
  by (simp add: disconnect_from_wifi_def subprocess_run_def send_notification_emitted
      split: option.splits)

lemma connect_same:
  "settings (snd (connect_to_wifi ev s c)) = settings s
   \<and> angle (snd (connect_to_wifi ev s c)) = angle s
   \<and> opened (snd (connect_to_wifi ev s c)) = opened s"
  by (simp add: connect_to_wifi_def subprocess_run_def send_notification_emitted
      split: list.splits option.splits)

lemma update_settings_keeps_angle:
  "angle (snd (update_settings ev s body)) = angle s
   \<and> opened (snd (update_settings ev s body)) = opened s"
  by (simp add: update_settings_def save_json_def send_notification_emitted
      split: option.splits sum.splits jfile.splits)

lemma command_handler_inv:
  assumes "opened_inv s" and "command_handler ev s c = Some r" and "fst r = Inr ()"
  shows "opened_inv (snd r)"
proof -
  consider "c = ''OPEN''" | "c = ''CLOSE''" | "c = ''STATUS''" | "c = ''SETTINGS''"
    | "c = ''GET_SETTINGS''" | "c = ''WIFI_DISCONNECT''" | "c = ''GET_WIFI''"
    using assms(2) by (auto simp add: command_handler_def split: if_splits)
  then show ?thesis
  proof cases
    case 1
    then have "r = set_open s" using assms(2) by (simp add: command_handler_def)
    then show ?thesis using assms(1,3) by (simp add: set_open_inv)
  next
    case 2
    then have "r = set_close s" using assms(2) by (simp add: command_handler_def)
    then show ?thesis using assms(1,3) by (simp add: set_close_inv)
  next
    case 3
    then have "r = set_status s" using assms(2) by (simp add: command_handler_def)
    then show ?thesis using assms(1) opened_inv_same [of "snd (set_status s)" s]
      by (simp add: set_status_same)
  next
    case 4
    then have "r = (Inl TypeError, s)" using assms(2) by (simp add: command_handler_def)
    then show ?thesis using assms(3) by simp
  next
    case 5
    then have "r = get_settings s" using assms(2) by (simp add: command_handler_def)
    then show ?thesis using assms(1) opened_inv_same [of "snd (get_settings s)" s]
      by (simp add: get_settings_same)
  next
    case 6
    then have "r = disconnect_from_wifi ev s" using assms(2) by (simp add: command_handler_def)
    then show ?thesis using assms(1) opened_inv_same [of "snd (disconnect_from_wifi ev s)" s]
      by (simp add: disconnect_same)
  next
    case 7
    then have "r = get_wifi ev s" using assms(2) by (simp add: command_handler_def)
    then show ?thesis using assms(1) opened_inv_same [of "snd (get_wifi ev s)" s]
      by (simp add: get_wifi_same)
  qed
qed

lemma reraise_failed_fst [simp]: "(fst (reraise_failed r) = Inr ()) = (fst r = Inr ())"
  by (cases r) (simp add: reraise_failed_def split: sum.splits)

lemma reraise_failed_snd [simp]: "snd (reraise_failed r) = snd r"
  by (cases r) (simp add: reraise_failed_def split: sum.splits)

lemma write_value_inv:
  assumes "is_auth s" and "opened_inv s" and "\<not> startswith c ''SETTINGS:''"
    and "fst (WriteValue ev s (Utf8 c)) = Inr ()"
  shows "opened_inv (snd (WriteValue ev s (Utf8 c)))"
proof -
  have w: "WriteValue ev s (Utf8 c) = reraise_failed (WriteValue_body ev s (Utf8 c))"
    using assms(1) by (simp add: WriteValue_def)
  have ok: "fst (WriteValue_body ev s (Utf8 c)) = Inr ()"
    using assms(4) by (simp add: w)
  have "opened_inv (snd (WriteValue_body ev s (Utf8 c)))"
  proof (cases "startswith c ''ANGLE:''")
    case True
    then show ?thesis
      using ok assms(2) by (simp add: WriteValue_body_def angle_command_inv)
  next
    case na: False
    show ?thesis
    proof (cases "startswith c ''CONNECT:''")
      case True
      then show ?thesis
        using na assms(2) opened_inv_same [of "snd (connect_to_wifi ev s (drop 8 c))" s]
        by (simp add: WriteValue_body_def connect_same)
    next
      case nc: False
      show ?thesis
      proof (cases "command_handler ev s c")
        case None
        then show ?thesis
          using ok na nc assms(3) by (simp add: WriteValue_body_def)
      next
        case (Some r)
        then show ?thesis
          using ok na nc assms(2,3) command_handler_inv [of s ev c r]
          by (simp add: WriteValue_body_def)
      qed
    qed
  qed
  then show ?thesis
    by (simp add: w)
qed

lemma sensor_pass_inv:
  assumes "opened_inv s"
  shows "opened_inv (sensor_pass s t)"
proof (cases "0 < measure_distance s (fst t)")
  case False
  then show ?thesis
    using assms by (simp add: sensor_pass_def)
next
  case True
  then have on: "status s"
    by (rule measure_distance_status)
  obtain mn mx where b: "int_setting s ''minAngle'' = Inr mn" "int_setting s ''maxAngle'' = Inr mx"
    using assms by (rule opened_inv_bounds)
  obtain s1 where o: "set_open s = (Inr (), s1)"
    using set_open_on [OF on b] by simp
  have s1: "s1 = snd (set_open s)"
    by (simp add: o)
  have i1: "opened_inv s1"
    using assms o set_open_inv [of s] by simp
  have on1: "status (s1\<lparr>running := True\<rparr>)"
    using set_open_on [OF on b] on by (simp add: s1 emitted_def)
  have b1: "int_setting (s1\<lparr>running := True\<rparr>) ''minAngle'' = Inr mn"
    "int_setting (s1\<lparr>running := True\<rparr>) ''maxAngle'' = Inr mx"
    using set_open_on [OF on b] b by (simp_all add: s1)
  have i1r: "opened_inv (s1\<lparr>running := r\<rparr>)" for r
    using i1 opened_inv_same [of "s1\<lparr>running := r\<rparr>" s1] by simp
  have "fst (set_close (s1\<lparr>running := True\<rparr>)) = Inr ()"
    using set_close_on [OF on1 b1] by simp
  then have i2: "opened_inv (snd (set_close (s1\<lparr>running := True\<rparr>)))"
    using i1r [of True] by (simp add: set_close_inv)
  have "sensor_pass s t = s \<or> sensor_pass s t = s1\<lparr>running := False\<rparr>
      \<or> sensor_pass s t = snd (set_close (s1\<lparr>running := True\<rparr>))"
    by (simp add: sensor_pass_def o Let_def split: sum.splits)
  then show ?thesis
    using assms i1r [of False] i2 by auto
qed

lemma fresh_inv: "opened_inv fresh"
  by (simp add: opened_inv_def)

lemma init_inv:
  assumes "NeoService_init sfile dfile = Inr s0"
    and "int_setting s0 ''minAngle'' = Inr mn" and "int_setting s0 ''maxAngle'' = Inr mx"
    and "0 \<le> mn \<or> mx < 0"
  shows "opened_inv s0"
proof -
  have "angle s0 = 0 \<and> opened s0 = False"
    using assms(1)
    by (auto simp add: NeoService_init_def init_fields_def Let_def split: sum.splits prod.splits)
  then show ?thesis
    using assms(2-4) by (auto simp add: opened_inv_def)
qed

lemma init_below_zero:
  "NeoService_init (Content settings_below_zero) Missing =
     Inr ((init_fields settings_below_zero (Content settings_below_zero))\<lparr>servo := [2611]\<rparr>)"
  by (simp add: NeoService_init_def read_json_def init_fields_def settings_below_zero_def
      int_setting_def getitem_str_def py_int_def pulse_width_def)

lemma init_default: "NeoService_init Missing Missing = Inr (fresh\<lparr>servo := [2500]\<rparr>)"
  by (simp add: NeoService_init_def read_json_def return_default_def fresh_def [symmetric]
      pulse_width_def)

text \<open>
  Claim C5 says that \<open>opened = (minAngle < angle \<le> maxAngle)\<close> holds in the initial
  state and is preserved by every operation, UpdateSettings included when it changes a
  bound. \<open>save_json\<close> replaces the settings and leaves \<open>opened\<close> alone: after OPEN on
  the default settings (angle 180, opened) the request that sets \<open>maxAngle\<close> to 90
  succeeds and \<open>opened\<close> is still true, with the angle 180 above the new bound. And
  \<open>__init__\<close> computes \<open>opened\<close> from the constants 180 and 0, not from the settings:
  started on a settings.json with \<open>minAngle = -10\<close> the service has angle 0 and
  \<open>opened\<close> false, although \<open>-10 < 0 \<le> 180\<close>.
\<close>

theorem opened_inv_counterexample:
  "opened_inv (snd (WriteValue sample_json (fresh\<lparr>is_auth := True\<rparr>) (Utf8 ''OPEN'')))
   \<and> fst (WriteValue sample_json (snd (WriteValue sample_json (fresh\<lparr>is_auth := True\<rparr>) (Utf8 ''OPEN'')))
        (Utf8 (''SETTINGS:'' @ request_max))) = Inr ()
   \<and> \<not> opened_inv (snd (WriteValue sample_json
        (snd (WriteValue sample_json (fresh\<lparr>is_auth := True\<rparr>) (Utf8 ''OPEN'')))
        (Utf8 (''SETTINGS:'' @ request_max))))
   \<and> NeoService_init (Content settings_below_zero) Missing =
        Inr ((init_fields settings_below_zero (Content settings_below_zero))\<lparr>servo := [2611]\<rparr>)
   \<and> \<not> opened_inv ((init_fields settings_below_zero (Content settings_below_zero))\<lparr>servo := [2611]\<rparr>)"
proof -
  let ?s1 = "fresh\<lparr>is_auth := True, angle := 180, opened := True, servo := [500],
      sent := [JObj [(''Angle'', JInt 180)], JObj [(''Opened'', JBool True)]]\<rparr>"
  let ?s2 = "?s1\<lparr>
        settings_file := Content (JObj [(''settings'',
          JObj [(''minAngle'', JInt 0), (''maxAngle'', JInt 90), (''detectDistance'', JInt 20)])]),
        settings := JObj [(''settings'',
          JObj [(''minAngle'', JInt 0), (''maxAngle'', JInt 90), (''detectDistance'', JInt 20)])],
        sent := [JObj [(''Angle'', JInt 180)], JObj [(''Opened'', JBool True)],
                 JObj [(''maxAngle'', JInt 90)]]\<rparr>"
  have o: "WriteValue sample_json (fresh\<lparr>is_auth := True\<rparr>) (Utf8 ''OPEN'') = (Inr (), ?s1)"
    by (simp add: WriteValue_def WriteValue_body_def startswith_def command_handler_def
        set_open_on [where mn = 0 and mx = 180] reraise_failed_def emitted_def pulse_width_def)
  have u: "WriteValue sample_json ?s1 (Utf8 (''SETTINGS:'' @ request_max)) = (Inr (), ?s2)"
  proof -
    have "WriteValue sample_json ?s1 (Utf8 (''SETTINGS:'' @ request_max)) =
        reraise_failed (update_settings sample_json ?s1 request_max)"
      by (rule write_settings_dispatch) simp
    then show ?thesis
      by (simp add: reraise_failed_def
          update_settings_def getitem_str_def save_json_def setitem2_def getitem_def setitem_def
          key_text_def send_notification_emitted emitted_def default_settings_def)
  qed
  have a: "opened_inv ?s1"
    by (simp add: opened_inv_def)
  have c: "\<not> opened_inv ?s2"
    by (simp add: opened_inv_def int_setting_def getitem_str_def py_int_def)
  have d: "\<not> opened_inv ((init_fields settings_below_zero (Content settings_below_zero))\<lparr>servo := [2611]\<rparr>)"
    by (simp add: opened_inv_def int_setting_def getitem_str_def py_int_def init_fields_def
        settings_below_zero_def)
  show ?thesis
    unfolding o snd_conv u fst_conv using a c d init_below_zero by simp
qed

text \<open>
  Claim C5, amended: \<open>opened = (minAngle < angle \<le> maxAngle)\<close> holds in every state
  \<open>__init__\<close> builds from settings with integer bounds and \<open>minAngle \<ge> 0\<close> (or
  \<open>maxAngle < 0\<close>), the default settings among them. It is preserved by every command
  other than \<open>SETTINGS:...\<close> that returns normally (ANGLE, OPEN and CLOSE establish it
  anew, the others leave the three quantities alone), by every pass of the sensor loop,
  and by Authenticate, StartNotify and StopNotify. UpdateSettings replaces the settings
  and leaves \<open>angle\<close> and \<open>opened\<close> as they were: \<open>opened\<close> is not computed
  again for the new bounds.
\<close>

theorem opened_inv_preserved:
  "(NeoService_init sfile dfile = Inr start
        \<and> int_setting start ''minAngle'' = Inr mn \<and> int_setting start ''maxAngle'' = Inr mx
        \<and> (0 \<le> mn \<or> mx < 0)
      \<longrightarrow> opened_inv start)
   \<and> NeoService_init Missing Missing = Inr (fresh\<lparr>servo := [2500]\<rparr>)
   \<and> (is_auth s \<and> opened_inv s \<and> \<not> startswith c ''SETTINGS:''
        \<and> fst (WriteValue ev s (Utf8 c)) = Inr ()
      \<longrightarrow> opened_inv (snd (WriteValue ev s (Utf8 c))))
   \<and> (opened_inv s \<longrightarrow> opened_inv (sensor_pass s t))
   \<and> opened_inv (snd (AuthChrc_WriteValue s v)) = opened_inv s
   \<and> opened_inv (snd (StartNotify s)) = opened_inv s
   \<and> opened_inv (snd (StopNotify s)) = opened_inv s
   \<and> (is_auth s \<longrightarrow>
        angle (snd (WriteValue ev s (Utf8 (''SETTINGS:'' @ body)))) = angle s
        \<and> opened (snd (WriteValue ev s (Utf8 (''SETTINGS:'' @ body)))) = opened s)"
proof -
  have "angle (snd (WriteValue ev s (Utf8 (''SETTINGS:'' @ body)))) = angle s
        \<and> opened (snd (WriteValue ev s (Utf8 (''SETTINGS:'' @ body)))) = opened s"
    if "is_auth s"
  proof -
    have "WriteValue ev s (Utf8 (''SETTINGS:'' @ body)) = reraise_failed (update_settings ev s body)"
      using that by (rule write_settings_dispatch)
    then show ?thesis
      by (simp add: update_settings_keeps_angle)
  qed
  moreover have "opened_inv (snd (AuthChrc_WriteValue s v)) = opened_inv s"
    by (rule opened_inv_same) (simp_all add: AuthChrc_WriteValue_def)
  moreover have "opened_inv (snd (StartNotify s)) = opened_inv s"
    by (rule opened_inv_same) (simp_all add: StartNotify_def)
  moreover have "opened_inv (snd (StopNotify s)) = opened_inv s"
    by (rule opened_inv_same) (simp_all add: StopNotify_def)
  ultimately show ?thesis
    using init_inv [of sfile dfile start mn mx] init_default write_value_inv [of s c ev]
      sensor_pass_inv [of s t]
    by blast
qed

theorem opened_inv_preserved_witness:
  "opened_inv (fresh\<lparr>servo := [2500]\<rparr>)
   \<and> opened_inv (fresh\<lparr>is_auth := True\<rparr>)
   \<and> fst (WriteValue no_json (fresh\<lparr>is_auth := True\<rparr>) (Utf8 ''OPEN'')) = Inr ()
   \<and> opened_inv (snd (WriteValue no_json (fresh\<lparr>is_auth := True\<rparr>) (Utf8 ''OPEN'')))
   \<and> opened_inv (sensor_pass (fresh\<lparr>is_auth := True\<rparr>) (Some (30 / 34300), True))
   \<and> angle (snd (WriteValue sample_json (fresh\<lparr>is_auth := True\<rparr>) (Utf8 (''SETTINGS:'' @ request_max)))) = 0"
proof -
  have i: "opened_inv (fresh\<lparr>is_auth := True\<rparr>)"
    by (simp add: opened_inv_def)
  have n: "\<not> startswith ''OPEN'' ''SETTINGS:''"
    by (simp add: startswith_def)
  have ok: "fst (WriteValue no_json (fresh\<lparr>is_auth := True\<rparr>) (Utf8 ''OPEN'')) = Inr ()"
    by (simp add: WriteValue_def WriteValue_body_def startswith_def command_handler_def
        set_open_on [where mn = 0 and mx = 180])
  show ?thesis
    using i n ok
      opened_inv_preserved [where sfile = Missing and dfile = Missing
        and start = "fresh\<lparr>servo := [2500]\<rparr>" and mn = 0 and mx = 180
        and s = "fresh\<lparr>is_auth := True\<rparr>" and c = "''OPEN''" and ev = no_json
        and t = "(Some (30 / 34300), True)" and v = PASS and body = request_max]
      opened_inv_preserved [where sfile = Missing and dfile = Missing
        and start = "fresh\<lparr>servo := [2500]\<rparr>" and mn = 0 and mx = 180
        and s = "fresh\<lparr>is_auth := True\<rparr>" and c = "''OPEN''" and ev = sample_json
        and t = "(Some (30 / 34300), True)" and v = PASS and body = request_max]
    by simp
qed

subsection \<open>C6: the command grammar\<close>

lemma split_no_sep: "sep \<notin> set a \<Longrightarrow> split a sep = [a]"
  by (induction a) auto

lemma split_first: "sep \<notin> set a \<Longrightarrow> split (a @ sep # b) sep = a # split b sep"
  by (induction a) auto

lemma write_connect_dispatch:
  "is_auth s \<Longrightarrow>
     WriteValue ev s (Utf8 (''CONNECT:'' @ r)) = reraise_failed (connect_to_wifi ev s r)"
  by (simp add: WriteValue_def WriteValue_body_def startswith_def)

lemma connect_to_wifi_fields:
  assumes "split r CHR '':'' = ssid # password # others"
    and "CHR 0x00 \<notin> set ssid" and "CHR 0x00 \<notin> set password"
    and "os_error ev [''sudo'', ''nmcli'', ''device'', ''wifi'', ''connect'', ssid, ''password'', password] = None"
  shows "connect_to_wifi ev s r =
     (Inr (), emitted
        (s\<lparr>procs := procs s @
            [[''sudo'', ''nmcli'', ''device'', ''wifi'', ''connect'', ssid, ''password'', password]]\<rparr>)
        [JObj [(''WiFiConnectionData'', get_wifi_status ev (procs s @
            [[''sudo'', ''nmcli'', ''device'', ''wifi'', ''connect'', ssid, ''password'', password]]))]])"
  using assms
  by (simp add: connect_to_wifi_def subprocess_run_def send_notification_emitted emitted_def)

lemma connect_to_wifi_nul:
  assumes "split r CHR '':'' = ssid # password # others"
    and "CHR 0x00 \<in> set ssid \<or> CHR 0x00 \<in> set password"
  shows "connect_to_wifi ev s r = (Inl ValueError, s)"
  using assms by (auto simp add: connect_to_wifi_def subprocess_run_def)

lemma connect_to_wifi_two_fields:
  assumes "split r CHR '':'' = ssid # password # others"
    and "split r' CHR '':'' = ssid # password # others'"
  shows "connect_to_wifi ev s r = connect_to_wifi ev s r'"
  using assms by (simp add: connect_to_wifi_def)

lemma connect_to_wifi_short:
  assumes "CHR '':'' \<notin> set r"
  shows "connect_to_wifi ev s r = (Inl IndexError, s)"
  using assms by (simp add: connect_to_wifi_def split_no_sep)

lemma write_keyword:
  assumes "is_auth s" and "command_handler ev s c = Some r"
    and "c \<noteq> ''SETTINGS''"
  shows "WriteValue ev s (Utf8 c) = reraise_failed r"
proof -
  have "c = ''OPEN'' \<or> c = ''CLOSE'' \<or> c = ''STATUS''
      \<or> c = ''GET_SETTINGS'' \<or> c = ''WIFI_DISCONNECT'' \<or> c = ''GET_WIFI''"
    using assms(2,3) by (simp add: command_handler_def split: if_splits)
  then have "\<not> startswith c ''ANGLE:'' \<and> \<not> startswith c ''CONNECT:'' \<and> \<not> startswith c ''SETTINGS:''"
    by (auto simp add: startswith_def)
  then show ?thesis
    using assms(1,2) by (simp add: WriteValue_def WriteValue_body_def)
qed

text \<open>
  Claim C6 says that the password of \<open>CONNECT:\<close> is the whole remainder after the
  second separator, that the exact keyword SETTINGS dispatches its command successfully,
  and that every text outside the listed grammar fails as UnknownCommand.
  \<open>connect_to_wifi\<close> takes \<open>command.split(":")[1]\<close>, so for \<open>CONNECT:net:pa:ss\<close>
  nmcli is given the password \<open>pa\<close>. The table entry SETTINGS is called without the
  argument \<open>update_settings\<close> needs, so the bare keyword fails with a TypeError. And the
  keyword GET_SETTINGS, which the claim does not list, is a command.
\<close>

theorem write_value_grammar_counterexample:
  "procs (snd (WriteValue no_json (fresh\<lparr>is_auth := True\<rparr>) (Utf8 ''CONNECT:net:pa:ss''))) =
      [[''sudo'', ''nmcli'', ''device'', ''wifi'', ''connect'', ''net'', ''password'', ''pa'']]
   \<and> WriteValue no_json (fresh\<lparr>is_auth := True\<rparr>) (Utf8 ''SETTINGS'') =
      (Inl (FailedException [] (Some TypeError)), fresh\<lparr>is_auth := True\<rparr>)
   \<and> WriteValue no_json (fresh\<lparr>is_auth := True\<rparr>) (Utf8 ''GET_SETTINGS'') =
      (Inr (), fresh\<lparr>is_auth := True,
         sent := [JObj [(''maxAngle'', JInt 180)], JObj [(''detectDistance'', JInt 20)]]\<rparr>)"
  by (simp add: WriteValue_def WriteValue_body_def startswith_def reraise_failed_def
      connect_to_wifi_def subprocess_run_def no_json_def command_handler_def get_settings_def
      send_notification_emitted emitted_def Let_def)

text \<open>
  Claim C6, amended, for an authenticated session. \<open>ANGLE:<t>\<close>: when \<open>int(t)\<close>
  fails the command fails with InvalidValueLengthException and the state is as before,
  otherwise the angle is assigned and the servo, \<open>opened\<close> and the notifications
  follow. \<open>CONNECT:<r>\<close>: \<open>r\<close> is split at every colon and the first two fields are
  the ssid and the password, so whatever follows a second colon is dropped, and a
  remainder without a colon fails with an IndexError. nmcli is run with the two fields
  and the WiFi status is notified, provided neither field holds a NUL character and the
  program can be started; with a NUL character in a field the command fails with a
  ValueError, nothing is run and nothing is notified. \<open>SETTINGS:<body>\<close> runs
  \<open>update_settings\<close> on the body. Each of the exact keywords OPEN, CLOSE, STATUS,
  GET_SETTINGS, WIFI_DISCONNECT and GET_WIFI runs its handler. Every other text but the
  bare keyword SETTINGS fails with FailedException "Invalid command" and leaves the state
  as it was. Every failure reaches the caller as a FailedException that carries the text
  of the original exception.
\<close>

theorem write_value_grammar:
  assumes "is_auth s"
  shows "(int_of_str t = None \<longrightarrow>
        WriteValue ev s (Utf8 (''ANGLE:'' @ t)) =
          (Inl (FailedException [] (Some InvalidValueLengthException)), s))
    \<and> (int_of_str t = Some a \<longrightarrow>
        WriteValue ev s (Utf8 (''ANGLE:'' @ t)) =
          reraise_failed
            (case move_and_notify (s\<lparr>angle := a\<rparr>) of
               (Inl e, s1) \<Rightarrow> (Inl (angle_handler e), s1)
             | (Inr u, s1) \<Rightarrow> (Inr (), s1)))
    \<and> (CHR '':'' \<notin> set ssid \<and> CHR '':'' \<notin> set password \<longrightarrow>
        (CHR 0x00 \<notin> set ssid \<and> CHR 0x00 \<notin> set password
          \<and> os_error ev [''sudo'', ''nmcli'', ''device'', ''wifi'', ''connect'', ssid, ''password'', password] = None
         \<longrightarrow> WriteValue ev s (Utf8 (''CONNECT:'' @ ssid @ '':'' @ password)) =
          (Inr (), emitted
             (s\<lparr>procs := procs s @
                 [[''sudo'', ''nmcli'', ''device'', ''wifi'', ''connect'', ssid, ''password'', password]]\<rparr>)
             [JObj [(''WiFiConnectionData'', get_wifi_status ev (procs s @
                 [[''sudo'', ''nmcli'', ''device'', ''wifi'', ''connect'', ssid, ''password'', password]]))]]))
        \<and> (CHR 0x00 \<in> set ssid \<or> CHR 0x00 \<in> set password
         \<longrightarrow> WriteValue ev s (Utf8 (''CONNECT:'' @ ssid @ '':'' @ password)) =
              (Inl (FailedException [] (Some ValueError)), s))
        \<and> WriteValue ev s (Utf8 (''CONNECT:'' @ ssid @ '':'' @ password @ '':'' @ rest)) =
            WriteValue ev s (Utf8 (''CONNECT:'' @ ssid @ '':'' @ password))
        \<and> WriteValue ev s (Utf8 (''CONNECT:'' @ ssid)) =
            (Inl (FailedException [] (Some IndexError)), s))
    \<and> WriteValue ev s (Utf8 (''SETTINGS:'' @ body)) = reraise_failed (update_settings ev s body)
    \<and> WriteValue ev s (Utf8 ''OPEN'') = reraise_failed (set_open s)
    \<and> WriteValue ev s (Utf8 ''CLOSE'') = reraise_failed (set_close s)
    \<and> WriteValue ev s (Utf8 ''STATUS'') = reraise_failed (set_status s)
    \<and> WriteValue ev s (Utf8 ''GET_SETTINGS'') = reraise_failed (get_settings s)
    \<and> WriteValue ev s (Utf8 ''WIFI_DISCONNECT'') = reraise_failed (disconnect_from_wifi ev s)
    \<and> WriteValue ev s (Utf8 ''GET_WIFI'') = reraise_failed (get_wifi ev s)
    \<and> (\<not> startswith c ''ANGLE:'' \<and> \<not> startswith c ''CONNECT:'' \<and> \<not> startswith c ''SETTINGS:''
        \<and> c \<noteq> ''OPEN'' \<and> c \<noteq> ''CLOSE'' \<and> c \<noteq> ''STATUS'' \<and> c \<noteq> ''SETTINGS''
        \<and> c \<noteq> ''GET_SETTINGS'' \<and> c \<noteq> ''WIFI_DISCONNECT'' \<and> c \<noteq> ''GET_WIFI''
      \<longrightarrow> WriteValue ev s (Utf8 c) =
            (Inl (FailedException [] (Some (FailedException ''Invalid command'' None))), s))"
proof -
  have angle_bad: "WriteValue ev s (Utf8 (''ANGLE:'' @ t)) =
          (Inl (FailedException [] (Some InvalidValueLengthException)), s)"
    if "int_of_str t = None"
  proof -
    have "WriteValue ev s (Utf8 (''ANGLE:'' @ t)) = reraise_failed (angle_command s t)"
      using assms by (rule write_angle_dispatch)
    then show ?thesis
      using that by (simp add: angle_command_def angle_handler_def is_ValueError_def reraise_failed_def)
  qed
  have angle_ok: "WriteValue ev s (Utf8 (''ANGLE:'' @ t)) =
          reraise_failed
            (case move_and_notify (s\<lparr>angle := a\<rparr>) of
               (Inl e, s1) \<Rightarrow> (Inl (angle_handler e), s1)
             | (Inr u, s1) \<Rightarrow> (Inr (), s1))"
    if "int_of_str t = Some a"
  proof -
    have "WriteValue ev s (Utf8 (''ANGLE:'' @ t)) = reraise_failed (angle_command s t)"
      using assms by (rule write_angle_dispatch)
    then show ?thesis
      using that by (simp add: angle_command_def)
  qed
  have conn: "WriteValue ev s (Utf8 (''CONNECT:'' @ r)) = reraise_failed (connect_to_wifi ev s r)" for r
    using assms by (rule write_connect_dispatch)
  have c2: "WriteValue ev s (Utf8 (''CONNECT:'' @ ssid @ '':'' @ password)) =
          (Inr (), emitted
             (s\<lparr>procs := procs s @
                 [[''sudo'', ''nmcli'', ''device'', ''wifi'', ''connect'', ssid, ''password'', password]]\<rparr>)
             [JObj [(''WiFiConnectionData'', get_wifi_status ev (procs s @
                 [[''sudo'', ''nmcli'', ''device'', ''wifi'', ''connect'', ssid, ''password'', password]]))]])"
    if "CHR '':'' \<notin> set ssid" and "CHR '':'' \<notin> set password"
      and "CHR 0x00 \<notin> set ssid" and "CHR 0x00 \<notin> set password"
      and "os_error ev [''sudo'', ''nmcli'', ''device'', ''wifi'', ''connect'', ssid, ''password'', password] = None"
  proof -
    have "split (ssid @ '':'' @ password) CHR '':'' = [ssid, password]"
      using that(1,2) by (simp add: split_first split_no_sep)
    then have "connect_to_wifi ev s (ssid @ '':'' @ password) =
          (Inr (), emitted
             (s\<lparr>procs := procs s @
                 [[''sudo'', ''nmcli'', ''device'', ''wifi'', ''connect'', ssid, ''password'', password]]\<rparr>)
             [JObj [(''WiFiConnectionData'', get_wifi_status ev (procs s @
                 [[''sudo'', ''nmcli'', ''device'', ''wifi'', ''connect'', ssid, ''password'', password]]))]])"
      using that(3-5) by (rule connect_to_wifi_fields)
    then show ?thesis
      unfolding conn by (simp add: reraise_failed_def)
  qed
  have c4: "WriteValue ev s (Utf8 (''CONNECT:'' @ ssid @ '':'' @ password)) =
              (Inl (FailedException [] (Some ValueError)), s)"
    if "CHR '':'' \<notin> set ssid" and "CHR '':'' \<notin> set password"
      and "CHR 0x00 \<in> set ssid \<or> CHR 0x00 \<in> set password"
  proof -
    have "split (ssid @ '':'' @ password) CHR '':'' = [ssid, password]"
      using that(1,2) by (simp add: split_first split_no_sep)
    then have "connect_to_wifi ev s (ssid @ '':'' @ password) = (Inl ValueError, s)"
      using that(3) by (rule connect_to_wifi_nul)
    then show ?thesis
      unfolding conn by (simp add: reraise_failed_def)
  qed
  have c3: "WriteValue ev s (Utf8 (''CONNECT:'' @ ssid @ '':'' @ password @ '':'' @ rest)) =
            WriteValue ev s (Utf8 (''CONNECT:'' @ ssid @ '':'' @ password))"
    if "CHR '':'' \<notin> set ssid" and "CHR '':'' \<notin> set password"
  proof -
    have "split (ssid @ '':'' @ password @ '':'' @ rest) CHR '':'' = ssid # password # split rest CHR '':''"
      using that by (simp add: split_first)
    moreover have "split (ssid @ '':'' @ password) CHR '':'' = [ssid, password]"
      using that by (simp add: split_first split_no_sep)
    ultimately have "connect_to_wifi ev s (ssid @ '':'' @ password @ '':'' @ rest) =
        connect_to_wifi ev s (ssid @ '':'' @ password)"
      by (rule connect_to_wifi_two_fields)
    then show ?thesis
      unfolding conn by simp
  qed
  have c1: "WriteValue ev s (Utf8 (''CONNECT:'' @ ssid)) =
            (Inl (FailedException [] (Some IndexError)), s)"
    if "CHR '':'' \<notin> set ssid"
    unfolding conn connect_to_wifi_short [OF that] by (simp add: reraise_failed_def)
  have sett: "WriteValue ev s (Utf8 (''SETTINGS:'' @ body)) = reraise_failed (update_settings ev s body)"
    using assms by (rule write_settings_dispatch)
  have kw: "WriteValue ev s (Utf8 ''OPEN'') = reraise_failed (set_open s)"
    "WriteValue ev s (Utf8 ''CLOSE'') = reraise_failed (set_close s)"
    "WriteValue ev s (Utf8 ''STATUS'') = reraise_failed (set_status s)"
    "WriteValue ev s (Utf8 ''GET_SETTINGS'') = reraise_failed (get_settings s)"
    "WriteValue ev s (Utf8 ''WIFI_DISCONNECT'') = reraise_failed (disconnect_from_wifi ev s)"
    "WriteValue ev s (Utf8 ''GET_WIFI'') = reraise_failed (get_wifi ev s)"
    using assms by (simp_all add: write_keyword command_handler_def)
  have other: "WriteValue ev s (Utf8 c) =
            (Inl (FailedException [] (Some (FailedException ''Invalid command'' None))), s)"
    if "\<not> startswith c ''ANGLE:'' \<and> \<not> startswith c ''CONNECT:'' \<and> \<not> startswith c ''SETTINGS:''
        \<and> c \<noteq> ''OPEN'' \<and> c \<noteq> ''CLOSE'' \<and> c \<noteq> ''STATUS'' \<and> c \<noteq> ''SETTINGS''
        \<and> c \<noteq> ''GET_SETTINGS'' \<and> c \<noteq> ''WIFI_DISCONNECT'' \<and> c \<noteq> ''GET_WIFI''"
    using that assms
    by (simp add: WriteValue_def WriteValue_body_def command_handler_def reraise_failed_def)
  show ?thesis
    using angle_bad angle_ok c1 c2 c3 c4 sett kw other by blast
qed

lemma int_of_str_abc: "int_of_str ''4x'' = None"
  by (simp add: int_of_str_def strip_def is_space_def digits_def is_digit_def digit_val_def)

theorem write_value_grammar_witness:
  "WriteValue no_json (fresh\<lparr>is_auth := True\<rparr>) (Utf8 ''ANGLE:4x'') =
      (Inl (FailedException [] (Some InvalidValueLengthException)), fresh\<lparr>is_auth := True\<rparr>)
   \<and> WriteValue no_json (fresh\<lparr>is_auth := True\<rparr>) (Utf8 ''ANGLE:90'') =
      (Inr (), fresh\<lparr>is_auth := True, angle := 90, opened := True, servo := [1500],
        sent := [JObj [(''Angle'', JInt 90)], JObj [(''Opened'', JBool True)]]\<rparr>)
   \<and> WriteValue no_json (fresh\<lparr>is_auth := True\<rparr>) (Utf8 ''CONNECT:net:pa'') =
      (Inr (), fresh\<lparr>is_auth := True,
        procs := [[''sudo'', ''nmcli'', ''device'', ''wifi'', ''connect'', ''net'', ''password'', ''pa'']],
        sent := [JObj [(''WiFiConnectionData'', JNull)]]\<rparr>)
   \<and> WriteValue no_json (fresh\<lparr>is_auth := True\<rparr>)
        (Utf8 (''CONNECT:'' @ [CHR ''a'', CHR 0x00, CHR ''b''] @ '':'' @ ''pa'')) =
      (Inl (FailedException [] (Some ValueError)), fresh\<lparr>is_auth := True\<rparr>)
   \<and> WriteValue no_json (fresh\<lparr>is_auth := True\<rparr>) (Utf8 ''CONNECT:net'') =
      (Inl (FailedException [] (Some IndexError)), fresh\<lparr>is_auth := True\<rparr>)
   \<and> WriteValue no_json (fresh\<lparr>is_auth := True\<rparr>) (Utf8 ''LOCK'') =
      (Inl (FailedException [] (Some (FailedException ''Invalid command'' None))), fresh\<lparr>is_auth := True\<rparr>)"
  using write_value_grammar [of "fresh\<lparr>is_auth := True\<rparr>" "''4x''" no_json 0 "''net''" "''pa''" "''ss''" "''{}''" "''LOCK''"]
    write_value_grammar [of "fresh\<lparr>is_auth := True\<rparr>" "''90''" no_json 90 "''net''" "''pa''" "''ss''" "''{}''" "''LOCK''"]
    write_value_grammar [of "fresh\<lparr>is_auth := True\<rparr>" "''90''" no_json 90 "[CHR ''a'', CHR 0x00, CHR ''b'']" "''pa''" "''ss''" "''{}''" "''LOCK''"]
  by (simp add: int_of_str_abc int_of_str_90 startswith_def
      move_and_notify_on [where mn = 0 and mx = 180] reraise_failed_def emitted_def
      pulse_width_def no_json_def)

subsection \<open>C9: the two paths taking turns\<close>












end
